theory Spec2Isabelle
  imports Complex_Main
begin

section \<open>Python values and arithmetic\<close>

text \<open>
  Python floats are modelled as real numbers: rounding error, overflow and NaN payloads of
  IEEE arithmetic are outside the model. Dates are day numbers (integers); the daily
  observations of every price series carry a date without a time of day.
\<close>

datatype py_error = ZeroDivisionError | TypeError | IndexError

datatype pyval = PyNone | PyFloat real | PyComplex complex

text \<open>
  \<^verbatim>\<open>x ** y\<close> on floats: a positive base is the real power; a zero base is 0, 1 or
  ZeroDivisionError by the sign of the exponent; a negative base with a whole exponent
  stays a float and otherwise yields a complex number (the principal value).
\<close>

definition py_pow :: "real \<Rightarrow> real \<Rightarrow> py_error + pyval" where
  "py_pow x y =
     (if 0 < x then Inr (PyFloat (x powr y))
      else if x = 0 then
        (if 0 < y then Inr (PyFloat 0)
         else if y = 0 then Inr (PyFloat 1)
         else Inl ZeroDivisionError)
      else if y = of_int \<lfloor>y\<rfloor> then Inr (PyFloat (x powi \<lfloor>y\<rfloor>))
      else Inr (PyComplex (Complex (\<bar>x\<bar> powr y * cos (pi * y)) (\<bar>x\<bar> powr y * sin (pi * y)))))"

text \<open>\<^verbatim>\<open>a / b\<close> on floats raises on a zero divisor.\<close>

definition py_div :: "real \<Rightarrow> real \<Rightarrow> py_error + real" where
  "py_div a b = (if b = 0 then Inl ZeroDivisionError else Inr (a / b))"

text \<open>\<^verbatim>\<open>(v - 1) * 100\<close> on a float or a complex number.\<close>

fun minus1_times100 :: "pyval \<Rightarrow> pyval" where
  "minus1_times100 (PyFloat v) = PyFloat ((v - 1) * 100)"
| "minus1_times100 (PyComplex c) = PyComplex ((c - 1) * 100)"
| "minus1_times100 PyNone = PyNone"

section \<open>The CAGR calculators\<close>

text \<open>
  The expression \<^verbatim>\<open>((end / start) ** (1 / years) - 1) * 100\<close>, with the exceptions
  its divisions and its power can raise.
\<close>

definition cagr_expr :: "real \<Rightarrow> real \<Rightarrow> real \<Rightarrow> py_error + pyval" where
  "cagr_expr start_value end_value years =
     (case py_div end_value start_value of
        Inl e \<Rightarrow> Inl e
      | Inr q \<Rightarrow>
          (case py_div 1 years of
             Inl e \<Rightarrow> Inl e
           | Inr r \<Rightarrow>
               (case py_pow q r of
                  Inl e \<Rightarrow> Inl e
                | Inr v \<Rightarrow> Inr (minus1_times100 v))))"

text \<open>index\_cagr\_analysis\_excel.py, \<^verbatim>\<open>calculate_cagr\<close>: guard, then the formula inside
  \<^verbatim>\<open>try ... except: return None\<close>.\<close>

definition excel_calculate_cagr :: "real \<Rightarrow> real \<Rightarrow> real \<Rightarrow> pyval" where
  "excel_calculate_cagr start_price end_price years =
     (if start_price \<le> 0 \<or> end_price \<le> 0 \<or> years \<le> 0 then PyNone
      else (case cagr_expr start_price end_price years of
              Inl e \<Rightarrow> PyNone
            | Inr v \<Rightarrow> v))"

text \<open>nse\_index\_st.py, \<^verbatim>\<open>calculate_nse_cagr\<close>: the same guard and try block.\<close>

definition calculate_nse_cagr :: "real \<Rightarrow> real \<Rightarrow> real \<Rightarrow> pyval" where
  "calculate_nse_cagr start_value end_value years =
     (if start_value \<le> 0 \<or> end_value \<le> 0 \<or> years \<le> 0 then PyNone
      else (case cagr_expr start_value end_value years of
              Inl e \<Rightarrow> PyNone
            | Inr v \<Rightarrow> v))"

text \<open>mf\_st.py, \<^verbatim>\<open>calculate_cagr\<close>: the guard returns the float 0.0; no try block, so an
  exception of the formula would propagate.\<close>

definition mf_calculate_cagr :: "real \<Rightarrow> real \<Rightarrow> real \<Rightarrow> py_error + pyval" where
  "mf_calculate_cagr start_value end_value years =
     (if start_value \<le> 0 \<or> end_value \<le> 0 \<or> years \<le> 0 then Inr (PyFloat 0)
      else cagr_expr start_value end_value years)"

text \<open>fetch\_nifty\_data.py, \<^verbatim>\<open>calculate_cagr\<close>: the years come from the two dates, and the
  guard tests the years and the start value only.\<close>

definition nifty_calculate_cagr :: "real \<Rightarrow> real \<Rightarrow> int \<Rightarrow> int \<Rightarrow> py_error + pyval" where
  "nifty_calculate_cagr start_value end_value start_date end_date =
     (let years = real_of_int (end_date - start_date) / 365.25 in
      if years \<le> 0 \<or> start_value \<le> 0 then Inr PyNone
      else (case py_div end_value start_value of
              Inl e \<Rightarrow> Inl e
            | Inr q \<Rightarrow>
                (case py_div 1 years of
                   Inl e \<Rightarrow> Inl e
                 | Inr r \<Rightarrow>
                     (case py_pow q r of
                        Inl e \<Rightarrow> Inl e
                      | Inr v \<Rightarrow> Inr (minus1_times100 v)))))"

section \<open>Rounding and statistics\<close>

text \<open>
  \<^verbatim>\<open>round(x, 2)\<close>: the nearest multiple of 0.01, a tie going to the even multiple.
\<close>

definition py_round2 :: "real \<Rightarrow> real" where
  "py_round2 x =
     (let s = x * 100; f = \<lfloor>s\<rfloor>; d = s - of_int f
      in (if d < 1 / 2 then of_int f
          else if 1 / 2 < d then of_int (f + 1)
          else if even f then of_int f else of_int (f + 1)) / 100)"

text \<open>\<^verbatim>\<open>sum(xs) / len(xs)\<close> and \<^verbatim>\<open>np.mean\<close>, on a list that the callers know non-empty.\<close>

definition mean :: "real list \<Rightarrow> real" where
  "mean xs = sum_list xs / real (length xs)"

text \<open>\<^verbatim>\<open>(sum((x - avg) ** 2 for x in xs) / len(xs)) ** 0.5\<close> and \<^verbatim>\<open>np.std(xs)\<close>: the
  divisor is the number of values. The mean of squares is never negative, so the power
  \<^verbatim>\<open>** 0.5\<close> is the square root.\<close>

definition population_std :: "real list \<Rightarrow> real" where
  "population_std xs =
     sqrt (sum_list (map (\<lambda>x. (x - mean xs) ^ 2) xs) / real (length xs))"

datatype pyfloat = Num real | NaN

text \<open>\<^verbatim>\<open>pd.Series(xs).std()\<close>: pandas divides by one less than the number of values
  (its default \<^verbatim>\<open>ddof=1\<close>) and gives NaN for fewer than two values.\<close>

definition pandas_std :: "real list \<Rightarrow> pyfloat" where
  "pandas_std xs =
     (if length xs \<le> 1 then NaN
      else Num (sqrt (sum_list (map (\<lambda>x. (x - mean xs) ^ 2) xs) / real (length xs - 1))))"

fun round2_pyfloat :: "pyfloat \<Rightarrow> pyfloat" where
  "round2_pyfloat (Num v) = Num (py_round2 v)"
| "round2_pyfloat NaN = NaN"

section \<open>Series, windows and reports\<close>

text \<open>A price series: rows of a date (a day number) and a closing price or NAV.\<close>

type_synonym series = "(int \<times> real) list"

text \<open>One entry of the \<^verbatim>\<open>windows\<close> list (of \<^verbatim>\<open>window_details\<close> in mf\_st.py).\<close>

record window_row =
  w_window :: nat
  w_start_date :: int
  w_end_date :: int
  w_start_nav :: real
  w_end_nav :: real
  w_actual_years :: real
  w_cagr :: "real option"

text \<open>The \<^verbatim>\<open>{"error": ...}\<close> dictionaries, one constructor for each message.\<close>

datatype failure =
    NoHistoricalData
  | NoRollingWindows
  | NoValidCAGR
  | NoDataFromStart
  | InsufficientData
  | NotEnoughData
  | Raised py_error

datatype 'a outcome = Failure failure | Report 'a

text \<open>The years between two rows, \<^verbatim>\<open>(end - start).days / 365.25\<close>.\<close>

definition years_between :: "int \<Rightarrow> int \<Rightarrow> real" where
  "years_between start_date end_date = real_of_int (end_date - start_date) / 365.25"

text \<open>\<^verbatim>\<open>hist_data[hist_data.index <= t]\<close>: the rows dated \<open>t\<close> or earlier, in the order of
  the series.\<close>

definition rows_until :: "series \<Rightarrow> real \<Rightarrow> series" where
  "rows_until hist_data t = filter (\<lambda>(d, p). real_of_int d \<le> t) hist_data"

text \<open>The present values of the \<^verbatim>\<open>cagr\<close> fields,
  \<^verbatim>\<open>[w['cagr'] for w in windows if w['cagr'] is not None]\<close>.\<close>

definition valid_cagrs :: "window_row list \<Rightarrow> real list" where
  "valid_cagrs windows = List.map_filter w_cagr windows"

section \<open>fetch\_nifty\_data.py: the rolling analysis\<close>

record nifty_report =
  nr_window_years :: int
  nr_start_date :: "int option"
  nr_stride_days :: int
  nr_total_windows :: nat
  nr_avg_cagr :: real
  nr_std_cagr :: real
  nr_windows :: "window_row list"
  nr_analysis_period :: "int \<times> int"

text \<open>\<^verbatim>\<open>min(available_dates, key=lambda x: abs(x - start_dt))\<close>: the first date at the
  least distance.\<close>

fun closest_date :: "int \<Rightarrow> int \<Rightarrow> int list \<Rightarrow> int" where
  "closest_date t best [] = best"
| "closest_date t best (d # ds) =
     closest_date t (if \<bar>d - t\<bar> < \<bar>best - t\<bar> then d else best) ds"

text \<open>The end of the window that starts at \<open>current_start\<close>, after
  \<^verbatim>\<open>if window_end > end_dt: window_end = end_dt\<close>.\<close>

definition clamp_end :: "int \<Rightarrow> int \<Rightarrow> int \<Rightarrow> real" where
  "clamp_end end_dt window_years current_start =
     (if real_of_int end_dt < real_of_int current_start + real_of_int window_years * 365.25
      then real_of_int end_dt
      else real_of_int current_start + real_of_int window_years * 365.25)"

text \<open>The dictionary appended for one window: prices and years rounded to two places.\<close>

definition nifty_window ::
  "nat \<Rightarrow> int \<Rightarrow> int \<Rightarrow> real \<Rightarrow> real \<Rightarrow> real option \<Rightarrow> window_row" where
  "nifty_window window_num actual_start_date actual_end_date start_price end_price c =
     \<lparr>w_window = window_num, w_start_date = actual_start_date,
      w_end_date = actual_end_date, w_start_nav = py_round2 start_price,
      w_end_nav = py_round2 end_price,
      w_actual_years = py_round2 (years_between actual_start_date actual_end_date),
      w_cagr = c\<rparr>"

text \<open>The tail of one pass of the loop, from \<^verbatim>\<open>if actual_years > 0 and start_price > 0\<close>
  to the append. \<^verbatim>\<open>round(cagr, 2)\<close> raises TypeError on a complex number.\<close>

definition nifty_emit ::
  "window_row list \<Rightarrow> nat \<Rightarrow> int \<Rightarrow> int \<Rightarrow> real \<Rightarrow> real \<Rightarrow> py_error + window_row list \<times> nat" where
  "nifty_emit windows window_num actual_start_date actual_end_date start_price end_price =
     (let actual_years = years_between actual_start_date actual_end_date;
          row = nifty_window window_num actual_start_date actual_end_date start_price end_price
      in if 0 < actual_years \<and> 0 < start_price then
           (case nifty_calculate_cagr start_price end_price actual_start_date actual_end_date of
              Inl e \<Rightarrow> Inl e
            | Inr PyNone \<Rightarrow> Inr (windows @ [row None], window_num + 1)
            | Inr (PyFloat c) \<Rightarrow> Inr (windows @ [row (Some (py_round2 c))], window_num + 1)
            | Inr (PyComplex z) \<Rightarrow> Inl TypeError)
         else Inr (windows, window_num))"

text \<open>One pass of \<^verbatim>\<open>while True\<close>. The state is \<^verbatim>\<open>(current_start, windows, window_num)\<close>;
  \<open>Inl\<close> leaves the loop (by \<^verbatim>\<open>break\<close> with the windows, or by an exception), \<open>Inr\<close> is
  the state of the next pass.\<close>

definition nifty_step ::
  "series \<Rightarrow> int \<Rightarrow> int \<Rightarrow> int \<Rightarrow> int \<times> window_row list \<times> nat
     \<Rightarrow> (py_error + window_row list) + int \<times> window_row list \<times> nat" where
  "nifty_step hist_data end_dt window_years stride_days st =
     (case st of (current_start, windows, window_num) \<Rightarrow>
        let window_days = real_of_int window_years * 365.25;
            window_end = real_of_int current_start + window_days;
            remaining_days = end_dt - current_start
        in if real_of_int remaining_days < window_days * 0.98 then Inl (Inr windows)
           else
             let window_end = (if real_of_int end_dt < window_end then real_of_int end_dt
                               else window_end);
                 actual_days = \<lfloor>window_end - real_of_int current_start\<rfloor>
             in if real_of_int actual_days < window_days * 0.98 then Inl (Inr windows)
                else
                  let start_prices = rows_until hist_data (real_of_int current_start);
                      end_prices = rows_until hist_data window_end
                  in if start_prices = [] \<or> end_prices = [] then
                       Inr (current_start + stride_days, windows, window_num)
                     else
                       let actual_start_date = fst (last start_prices);
                           actual_end_date = fst (last end_prices);
                           start_price = snd (last start_prices);
                           end_price = snd (last end_prices);
                           actual_years = years_between actual_start_date actual_end_date
                       in if actual_years < real_of_int window_years * 0.9 then Inl (Inr windows)
                          else
                            (case nifty_emit windows window_num actual_start_date
                                    actual_end_date start_price end_price of
                               Inl e \<Rightarrow> Inl (Inl e)
                             | Inr (windows', window_num') \<Rightarrow>
                                 let current_start' = current_start + stride_days
                                 in if real_of_int end_dt - window_days * 0.9
                                         \<le> real_of_int current_start'
                                    then Inl (Inr windows')
                                    else Inr (current_start', windows', window_num')))"

text \<open>The loop itself. It need not end (a stride of zero days repeats the same pass), so
  its value is an option: \<open>None\<close> is a run that never returns.\<close>

partial_function (option) nifty_loop ::
  "series \<Rightarrow> int \<Rightarrow> int \<Rightarrow> int \<Rightarrow> int \<times> window_row list \<times> nat
     \<Rightarrow> (py_error + window_row list) option" where
  "nifty_loop hist_data end_dt window_years stride_days st =
     (case nifty_step hist_data end_dt window_years stride_days st of
        Inl r \<Rightarrow> Some r
      | Inr st' \<Rightarrow> nifty_loop hist_data end_dt window_years stride_days st')"

text \<open>The statistics after the loop.\<close>

definition nifty_statistics ::
  "int \<Rightarrow> int option \<Rightarrow> int \<Rightarrow> window_row list \<Rightarrow> nifty_report outcome" where
  "nifty_statistics window_years start_date stride_days windows =
     (if windows \<noteq> [] then
        (let cagrs = valid_cagrs windows
         in if cagrs \<noteq> [] then
              (let avg_cagr = mean cagrs;
                   std_cagr = population_std cagrs
               in Report \<lparr>nr_window_years = window_years, nr_start_date = start_date,
                     nr_stride_days = stride_days, nr_total_windows = length windows,
                     nr_avg_cagr = py_round2 avg_cagr, nr_std_cagr = py_round2 std_cagr,
                     nr_windows = windows,
                     nr_analysis_period = (w_start_date (hd windows), w_end_date (last windows))\<rparr>)
            else Failure NoValidCAGR)
      else Failure NoRollingWindows)"

text \<open>The first anchor: the available date closest to the requested start, or the
  earliest date when no start is given.\<close>

definition nifty_start_dt :: "series \<Rightarrow> int option \<Rightarrow> int" where
  "nifty_start_dt hist_data start_date =
     (let available_dates = map fst hist_data
      in case start_date of
           Some s \<Rightarrow> closest_date s (hd available_dates) (tl available_dates)
         | None \<Rightarrow> Min (set available_dates))"

text \<open>\<^verbatim>\<open>calculate_rolling_cagr\<close>: \<open>hist_data\<close> is what the ticker's history holds, and
  \<open>start_date\<close> the parsed optional start. Every exception becomes an error dictionary.\<close>

definition nifty_calculate_rolling_cagr ::
  "series \<Rightarrow> int \<Rightarrow> int option \<Rightarrow> int \<Rightarrow> nifty_report outcome option" where
  "nifty_calculate_rolling_cagr hist_data window_years start_date stride_days =
     (if hist_data = [] then Some (Failure NoHistoricalData)
      else
        let start_dt = nifty_start_dt hist_data start_date;
            end_dt = Max (set (map fst hist_data))
        in (case nifty_loop hist_data end_dt window_years stride_days (start_dt, [], 1) of
              None \<Rightarrow> None
            | Some (Inl e) \<Rightarrow> Some (Failure (Raised e))
            | Some (Inr windows) \<Rightarrow>
                Some (nifty_statistics window_years start_date stride_days windows)))"

section \<open>nse\_index\_st.py: the rolling analysis\<close>

text \<open>
  A data frame keeps a label beside each row. \<^verbatim>\<open>fetch_nse_historical_data\<close> builds the frame
  from the rows the service sent, labelled by their position, and sorts it by date; the
  labels travel with the rows.
\<close>

type_synonym frame = "(nat \<times> int \<times> real) list"

definition row_date :: "nat \<times> int \<times> real \<Rightarrow> int" where
  "row_date r = fst (snd r)"

definition row_close :: "nat \<times> int \<times> real \<Rightarrow> real" where
  "row_close r = snd (snd r)"

definition historical_data :: "series \<Rightarrow> frame" where
  "historical_data df_data = sort_key row_date (zip [0..<length df_data] df_data)"

text \<open>\<^verbatim>\<open>df[df['Date'] >= t]\<close>: the rows dated \<open>t\<close> or later, in the order of the frame.\<close>

definition rows_from :: "frame \<Rightarrow> int \<Rightarrow> frame" where
  "rows_from df t = filter (\<lambda>r. t \<le> row_date r) df"

text \<open>\<^verbatim>\<open>reset_index(drop=True)\<close>: the labels become the positions.\<close>

definition reset_index :: "frame \<Rightarrow> frame" where
  "reset_index df = zip [0..<length df] (map snd df)"

text \<open>\<^verbatim>\<open>df.iloc[i]\<close>: a position, counted from the end when negative; IndexError outside.\<close>

definition iloc :: "'a list \<Rightarrow> int \<Rightarrow> py_error + 'a" where
  "iloc df i =
     (let n = int (length df)
      in if 0 \<le> i \<and> i < n then Inr (df ! nat i)
         else if - n \<le> i \<and> i < 0 then Inr (df ! nat (n + i))
         else Inl IndexError)"

text \<open>\<^verbatim>\<open>int(x)\<close> on a float truncates towards zero.\<close>

definition py_int :: "real \<Rightarrow> int" where
  "py_int x = (if 0 \<le> x then \<lfloor>x\<rfloor> else \<lceil>x\<rceil>)"

record nse_report =
  ns_window_years :: int
  ns_start_date :: "int option"
  ns_analysis_period :: "int \<times> int"
  ns_total_windows :: nat
  ns_avg_cagr :: real
  ns_std_cagr :: real
  ns_min_cagr :: real
  ns_max_cagr :: real
  ns_windows :: "window_row list"

text \<open>The entry appended for one window; \<^verbatim>\<open>round(cagr, 2) if cagr is not None else None\<close>.\<close>

definition nse_window ::
  "nat \<Rightarrow> int \<Rightarrow> int \<Rightarrow> real \<Rightarrow> real \<Rightarrow> py_error + window_row" where
  "nse_window n actual_start_date actual_end_date start_value end_value =
     (let actual_years = years_between actual_start_date actual_end_date;
          row = (\<lambda>c. \<lparr>w_window = n, w_start_date = actual_start_date,
                       w_end_date = actual_end_date, w_start_nav = start_value,
                       w_end_nav = end_value, w_actual_years = py_round2 actual_years,
                       w_cagr = c\<rparr>)
      in case calculate_nse_cagr start_value end_value actual_years of
           PyNone \<Rightarrow> Inr (row None)
         | PyFloat c \<Rightarrow> Inr (row (Some (py_round2 c)))
         | PyComplex z \<Rightarrow> Inl TypeError)"

text \<open>One pass of \<^verbatim>\<open>while start_idx < len(df)\<close>; the state is \<^verbatim>\<open>(start_idx, windows)\<close>.
  The end row is read by \<^verbatim>\<open>iloc\<close> at the label of the first candidate.\<close>

definition nse_step ::
  "frame \<Rightarrow> int \<Rightarrow> int \<Rightarrow> int \<times> window_row list
     \<Rightarrow> (py_error + window_row list) + int \<times> window_row list" where
  "nse_step df window_days stride_days st =
     (case st of (start_idx, windows) \<Rightarrow>
        if \<not> start_idx < int (length df) then Inl (Inr windows)
        else
          (case iloc df start_idx of
             Inl e \<Rightarrow> Inl (Inl e)
           | Inr start_row \<Rightarrow>
               let window_start_date = row_date start_row;
                   window_end_date = window_start_date + window_days;
                   end_candidates = rows_from df window_end_date
               in if 0 < length end_candidates then
                    (let end_idx = fst (hd end_candidates)
                     in case iloc df (int end_idx) of
                          Inl e \<Rightarrow> Inl (Inl e)
                        | Inr end_row \<Rightarrow>
                            (case nse_window (length windows + 1) (row_date start_row)
                                    (row_date end_row) (row_close start_row)
                                    (row_close end_row) of
                               Inl e \<Rightarrow> Inl (Inl e)
                             | Inr w \<Rightarrow> Inr (start_idx + stride_days, windows @ [w])))
                  else Inl (Inr windows)))"

partial_function (option) nse_loop ::
  "frame \<Rightarrow> int \<Rightarrow> int \<Rightarrow> int \<times> window_row list
     \<Rightarrow> (py_error + window_row list) option" where
  "nse_loop df window_days stride_days st =
     (case nse_step df window_days stride_days st of
        Inl r \<Rightarrow> Some r
      | Inr st' \<Rightarrow> nse_loop df window_days stride_days st')"

text \<open>The statistics: \<^verbatim>\<open>np.mean\<close>, \<^verbatim>\<open>np.std\<close>, \<^verbatim>\<open>min\<close> and \<^verbatim>\<open>max\<close> of the present values.\<close>

definition nse_statistics ::
  "int \<Rightarrow> int option \<Rightarrow> window_row list \<Rightarrow> nse_report outcome" where
  "nse_statistics window_years start_date windows =
     (if windows = [] then Failure NotEnoughData
      else
        let cagrs = valid_cagrs windows
        in if cagrs = [] then Failure NoValidCAGR
           else Report \<lparr>ns_window_years = window_years, ns_start_date = start_date,
                  ns_analysis_period = (w_start_date (hd windows), w_end_date (last windows)),
                  ns_total_windows = length windows,
                  ns_avg_cagr = py_round2 (mean cagrs),
                  ns_std_cagr = py_round2 (population_std cagrs),
                  ns_min_cagr = py_round2 (Min (set cagrs)),
                  ns_max_cagr = py_round2 (Max (set cagrs)),
                  ns_windows = windows\<rparr>)"

text \<open>\<^verbatim>\<open>calculate_nse_rolling_cagr\<close>, from the frame that the fetch returned.\<close>

definition calculate_nse_rolling_cagr ::
  "frame \<Rightarrow> int \<Rightarrow> int option \<Rightarrow> int \<Rightarrow> nse_report outcome option" where
  "calculate_nse_rolling_cagr df0 window_years start_date stride_days =
     (if df0 = [] then Some (Failure NoHistoricalData)
      else
        let df = (case start_date of
                    Some s \<Rightarrow> rows_from df0 s
                  | None \<Rightarrow> df0)
        in if df = [] then Some (Failure NoDataFromStart)
           else
             let df = (case start_date of Some s \<Rightarrow> reset_index df | None \<Rightarrow> df);
                 window_days = py_int (real_of_int window_years * 365.25)
             in if int (length df) < window_days div 30 then Some (Failure InsufficientData)
                else
                  (case nse_loop df window_days stride_days (0, []) of
                     None \<Rightarrow> None
                   | Some (Inl e) \<Rightarrow> Some (Failure (Raised e))
                   | Some (Inr windows) \<Rightarrow>
                       Some (nse_statistics window_years start_date windows)))"

text \<open>The frame that the loop of \<^verbatim>\<open>calculate_nse_rolling_cagr\<close> runs on: the fetched frame,
  or its rows from the start date on, relabelled.\<close>

definition nse_frame :: "frame \<Rightarrow> int option \<Rightarrow> frame" where
  "nse_frame df0 start_date =
     (case start_date of Some s \<Rightarrow> reset_index (rows_from df0 s) | None \<Rightarrow> df0)"

section \<open>mf\_st.py: the rolling analysis\<close>

record mf_result =
  mf_average_cagr :: real
  mf_std_dev :: pyfloat
  mf_num_windows :: nat
  mf_cagr_values :: "real list option"
  mf_window_details :: "window_row list"

text \<open>The dictionary returned when no window has a CAGR, and after any exception: it has no
  \<^verbatim>\<open>cagr_values\<close> key.\<close>

definition mf_empty_result :: mf_result where
  "mf_empty_result =
     \<lparr>mf_average_cagr = 0, mf_std_dev = Num 0, mf_num_windows = 0,
      mf_cagr_values = None, mf_window_details = []\<rparr>"

text \<open>The inner loop: the first \<^verbatim>\<open>j\<close> in \<^verbatim>\<open>range(start_idx + 1, len(df))\<close> whose date
  is not before the target.\<close>

definition mf_find_end :: "series \<Rightarrow> nat \<Rightarrow> real \<Rightarrow> nat option" where
  "mf_find_end df start_idx target_end_date =
     find (\<lambda>j. target_end_date \<le> real_of_int (fst (df ! j))) [start_idx + 1..<length df]"

text \<open>The dictionary appended to \<^verbatim>\<open>window_details\<close>; the NAV strings keep four decimals
  and are modelled by the NAVs themselves.\<close>

definition mf_window :: "nat \<Rightarrow> int \<Rightarrow> int \<Rightarrow> real \<Rightarrow> real \<Rightarrow> real \<Rightarrow> window_row" where
  "mf_window n actual_start_date actual_end_date start_nav end_nav cagr =
     \<lparr>w_window = n, w_start_date = actual_start_date, w_end_date = actual_end_date,
      w_start_nav = start_nav, w_end_nav = end_nav,
      w_actual_years = py_round2 (years_between actual_start_date actual_end_date),
      w_cagr = Some (py_round2 cagr)\<rparr>"

text \<open>\<^verbatim>\<open>stride_days = 21\<close>, a number of rows.\<close>

definition mf_stride_days :: nat where
  "mf_stride_days = 21"

text \<open>The outer loop \<^verbatim>\<open>for i in range(0, len(df), stride_days)\<close> from the index \<open>i\<close> on,
  with the two lists it appends to.\<close>

function mf_loop ::
  "series \<Rightarrow> real \<Rightarrow> nat \<Rightarrow> real list \<Rightarrow> window_row list
     \<Rightarrow> py_error + real list \<times> window_row list" where
  "mf_loop df window_days i cagr_values window_details =
     (if i < length df then
        (let start_date = fst (df ! i);
             target_end_date = real_of_int start_date + window_days
         in case mf_find_end df i target_end_date of
              None \<Rightarrow> Inr (cagr_values, window_details)
            | Some end_idx \<Rightarrow>
                let start_nav = snd (df ! i);
                    end_nav = snd (df ! end_idx);
                    actual_start_date = fst (df ! i);
                    actual_end_date = fst (df ! end_idx);
                    actual_years = years_between actual_start_date actual_end_date
                in if 0 < start_nav \<and> 0 < end_nav \<and> 0 < actual_years then
                     (case cagr_expr start_nav end_nav actual_years of
                        Inl e \<Rightarrow> Inl e
                      | Inr (PyFloat cagr) \<Rightarrow>
                          mf_loop df window_days (i + mf_stride_days)
                            (cagr_values @ [cagr])
                            (window_details @
                               [mf_window (length window_details + 1) actual_start_date
                                  actual_end_date start_nav end_nav cagr])
                      | Inr v \<Rightarrow> Inl TypeError)
                   else mf_loop df window_days (i + mf_stride_days)
                          cagr_values window_details)
      else Inr (cagr_values, window_details))"
  by pat_completeness auto
termination
  by (relation "measure (\<lambda>(df, window_days, i, cagr_values, window_details).
                  length df - i)") (auto simp: mf_stride_days_def)

declare mf_loop.simps [simp del]

text \<open>\<^verbatim>\<open>calculate_rolling_cagr\<close> of mf\_st.py: the rows are sorted by date, and any
  exception gives the empty result.\<close>

definition mf_calculate_rolling_cagr :: "series \<Rightarrow> int \<Rightarrow> mf_result" where
  "mf_calculate_rolling_cagr data window_years =
     (let df = sort_key fst data;
          window_days = real_of_int window_years * 365.25
      in case mf_loop df window_days 0 [] [] of
           Inl e \<Rightarrow> mf_empty_result
         | Inr (cagr_values, window_details) \<Rightarrow>
             if cagr_values = [] then mf_empty_result
             else \<lparr>mf_average_cagr = py_round2 (mean cagr_values),
                   mf_std_dev = round2_pyfloat (pandas_std cagr_values),
                   mf_num_windows = length cagr_values,
                   mf_cagr_values = Some cagr_values,
                   mf_window_details = window_details\<rparr>)"

section \<open>Example data\<close>

text \<open>A frame of twelve rows as the fetch returns it (sorted, labelled by position), with a
  gap of ten days and one of 390 days between its first rows.\<close>

definition nse_example_frame :: frame where
  "nse_example_frame =
     [(0, 0, 10), (1, 10, 10), (2, 400, 10), (3, 401, 10), (4, 402, 10), (5, 403, 10),
      (6, 404, 10), (7, 405, 10), (8, 406, 10), (9, 407, 10), (10, 408, 10), (11, 409, 10)]"

text \<open>A NAV history of 24 rows: 22 daily rows at NAV 1, then a row four years
  (1461 days) after the first at NAV 1 and a row four years after the 22nd at NAV 16.\<close>

definition mf_example_data :: series where
  "mf_example_data =
     [(0, 1), (1, 1), (2, 1), (3, 1), (4, 1), (5, 1), (6, 1), (7, 1), (8, 1), (9, 1), (10, 1),
      (11, 1), (12, 1), (13, 1), (14, 1), (15, 1), (16, 1), (17, 1), (18, 1), (19, 1),
      (20, 1), (21, 1), (1461, 1), (1482, 16)]"



text \<open>A frame of twelve rows whose last row is dated 365 days after the first.\<close>

definition nse_year_frame :: frame where
  "nse_year_frame =
     [(0, 0, 10), (1, 355, 10), (2, 356, 10), (3, 357, 10), (4, 358, 10), (5, 359, 10),
      (6, 360, 10), (7, 361, 10), (8, 362, 10), (9, 363, 10), (10, 364, 10), (11, 365, 10)]"

definition nse_year_window :: window_row where
  "nse_year_window = \<lparr>w_window = 1, w_start_date = 0, w_end_date = 365,
     w_start_nav = 10, w_end_nav = 10, w_actual_years = 1, w_cagr = Some 0\<rparr>"

definition nse_example_w1 :: window_row where
  "nse_example_w1 = \<lparr>w_window = 1, w_start_date = 0, w_end_date = 400,
     w_start_nav = 10, w_end_nav = 10, w_actual_years = 1.1, w_cagr = Some 0\<rparr>"

definition nse_example_w2 :: window_row where
  "nse_example_w2 = \<lparr>w_window = 2, w_start_date = 10, w_end_date = 400,
     w_start_nav = 10, w_end_nav = 10, w_actual_years = 1.07, w_cagr = Some 0\<rparr>"

section \<open>Properties of the calculators\<close>

lemma cagr_expr_pos:
  assumes "0 < s" "0 < e" "0 < y"
  shows "cagr_expr s e y = Inr (PyFloat (((e / s) powr (1 / y) - 1) * 100))"
  using assms by (simp add: cagr_expr_def py_div_def py_pow_def)




text \<open>
  C2 as stated: every calculator returns None when a price or the years are not positive.
  The calculator of mf\_st.py returns the float 0.0 there.
\<close>

theorem calculate_cagr_absent_counterexample:
  "((100::real) \<le> 0 \<or> (0::real) \<le> 0 \<or> (5::real) \<le> 0)
   \<and> mf_calculate_cagr 100 0 5 = Inr (PyFloat 0)
   \<and> mf_calculate_cagr 100 0 5 \<noteq> Inr PyNone"
  by (simp add: mf_calculate_cagr_def)

text \<open>
  C2, amended. When the start price, the end price or the years are not positive, the
  calculators of index\_cagr\_analysis\_excel.py and nse\_index\_st.py return None and the
  one of mf\_st.py returns 0.0; none raises. The calculator of fetch\_nifty\_data.py returns
  None when the end date is not after the start date or the start value is not positive.
\<close>

theorem calculate_cagr_guard:
  assumes "start_price \<le> 0 \<or> end_price \<le> 0 \<or> years \<le> 0"
  shows "excel_calculate_cagr start_price end_price years = PyNone
         \<and> calculate_nse_cagr start_price end_price years = PyNone
         \<and> mf_calculate_cagr start_price end_price years = Inr (PyFloat 0)
         \<and> (end_date \<le> start_date \<or> start_price \<le> 0 \<longrightarrow>
              nifty_calculate_cagr start_price end_price start_date end_date = Inr PyNone)"
proof -
  have "end_date \<le> start_date \<Longrightarrow> real_of_int (end_date - start_date) / 365.25 \<le> 0"
    by (simp add: divide_le_0_iff)
  then show ?thesis
    using assms
    by (auto simp: excel_calculate_cagr_def calculate_nse_cagr_def mf_calculate_cagr_def
        nifty_calculate_cagr_def Let_def divide_le_0_iff)
qed

theorem calculate_cagr_guard_witness:
  "excel_calculate_cagr 100 0 5 = PyNone
   \<and> calculate_nse_cagr 100 0 5 = PyNone
   \<and> mf_calculate_cagr 100 0 5 = Inr (PyFloat 0)
   \<and> nifty_calculate_cagr 100 0 10 10 = Inr PyNone
   \<and> excel_calculate_cagr 100 100 0 = PyNone
   \<and> calculate_nse_cagr 100 100 0 = PyNone"
  using calculate_cagr_guard [of 100 0 5 10 10] calculate_cagr_guard [of 100 100 0 10 10]
  by simp

section \<open>Date resolution\<close>

lemma rows_until_last:
  assumes "sorted (map fst hist_data)" "\<exists>ob\<in>set hist_data. real_of_int (fst ob) \<le> t"
  shows "rows_until hist_data t \<noteq> []
         \<and> last (rows_until hist_data t) \<in> set hist_data
         \<and> real_of_int (fst (last (rows_until hist_data t))) \<le> t
         \<and> (\<forall>ob\<in>set hist_data. real_of_int (fst ob) \<le> t \<longrightarrow> fst ob \<le> fst (last (rows_until hist_data t)))"
proof -
  let ?f = "rows_until hist_data t"
  have ne: "?f \<noteq> []" using assms(2) by (auto simp: rows_until_def filter_empty_conv)
  then have mem: "last ?f \<in> set ?f" by simp
  have srt: "sorted (map fst ?f)" using assms(1) by (simp add: rows_until_def sorted_filter)
  have "\<forall>ob\<in>set ?f. fst ob \<le> fst (last ?f)"
  proof
    fix ob assume "ob \<in> set ?f"
    then obtain i where i: "i < length ?f" "?f ! i = ob" by (auto simp: in_set_conv_nth)
    have "map fst ?f ! i \<le> map fst ?f ! (length ?f - 1)"
      using srt i ne by (intro sorted_nth_mono) auto
    then show "fst ob \<le> fst (last ?f)" using i ne by (simp add: last_conv_nth)
  qed
  moreover have "set ?f = {ob \<in> set hist_data. real_of_int (fst ob) \<le> t}"
    by (auto simp: rows_until_def)
  ultimately show ?thesis using ne mem by auto
qed

lemma mf_find_end_earliest:
  assumes "sorted (map fst df)" "i < length df" "real_of_int (fst (df ! i)) < target"
    "\<exists>k<length df. target \<le> real_of_int (fst (df ! k))"
  shows "\<exists>j. mf_find_end df i target = Some j \<and> j < length df
             \<and> target \<le> real_of_int (fst (df ! j))
             \<and> (\<forall>k<length df. target \<le> real_of_int (fst (df ! k)) \<longrightarrow> fst (df ! j) \<le> fst (df ! k))"
proof -
  from assms(4) obtain k where k: "k < length df" "target \<le> real_of_int (fst (df ! k))" by blast
  have ik: "i < k"
  proof (rule ccontr)
    assume "\<not> i < k"
    then have "k \<le> i" by simp
    then have "map fst df ! k \<le> map fst df ! i" using assms(1,2) by (intro sorted_nth_mono) auto
    with k assms(2,3) show False by simp
  qed
  then have "k \<in> set [i + 1..<length df]" using k by simp
  then obtain j where j: "mf_find_end df i target = Some j"
    using k(2) unfolding mf_find_end_def by (cases "find (\<lambda>j. target \<le> real_of_int (fst (df ! j))) [i + 1..<length df]") (auto simp: find_None_iff)
  then obtain n where n: "n < length [i + 1..<length df]" "target \<le> real_of_int (fst (df ! ([i + 1..<length df] ! n)))"
     "j = [i + 1..<length df] ! n" "\<forall>m<n. \<not> target \<le> real_of_int (fst (df ! ([i + 1..<length df] ! m)))"
    unfolding mf_find_end_def find_Some_iff by blast
  have jl: "j < length df" "j = i + 1 + n" using n by auto
  have "\<forall>k<length df. target \<le> real_of_int (fst (df ! k)) \<longrightarrow> fst (df ! j) \<le> fst (df ! k)"
  proof (intro allI impI)
    fix k' assume k': "k' < length df" "target \<le> real_of_int (fst (df ! k'))"
    show "fst (df ! j) \<le> fst (df ! k')"
    proof (cases "j \<le> k'")
      case True
      then have "map fst df ! j \<le> map fst df ! k'" using assms(1) k' by (intro sorted_nth_mono) auto
      then show ?thesis using jl k' by simp
    next
      case False
      then have lt: "k' < j" by simp
      have "i < k'"
      proof (rule ccontr)
        assume "\<not> i < k'"
        then have "k' \<le> i" by simp
        then have "map fst df ! k' \<le> map fst df ! i" using assms(1,2) by (intro sorted_nth_mono) auto
        with k' assms(2,3) show False by simp
      qed
      then obtain m where m: "k' = i + 1 + m" "m < n" using lt jl
        by (metis add.commute add_Suc_right less_natE nat_add_left_cancel_less plus_1_eq_Suc add.assoc)
      then have "\<not> target \<le> real_of_int (fst (df ! ([i + 1..<length df] ! m)))" using n(4) by blast
      moreover have "[i + 1..<length df] ! m = k'" using m n(1) by simp
      ultimately show ?thesis using k' by simp
    qed
  qed
  with j jl n show ?thesis by auto
qed

text \<open>
  C8. On a series ordered by date: the floor resolution of fetch\_nifty\_data.py (the last
  row of \<open>rows_until\<close>) is a row of the series dated at or before the target, and no row
  at or before the target is later; the ceiling resolution of mf\_st.py (the scan of
  \<open>mf_find_end\<close> for a target after the anchor row's date) is a row at or after the
  target, and no row at or after the target is earlier. Both succeed whenever such a row
  exists.
\<close>

theorem date_resolution:
  assumes "sorted (map fst df)"
  shows "((\<exists>ob\<in>set df. real_of_int (fst ob) \<le> t) \<longrightarrow>
            rows_until df t \<noteq> []
            \<and> last (rows_until df t) \<in> set df
            \<and> real_of_int (fst (last (rows_until df t))) \<le> t
            \<and> (\<forall>ob\<in>set df. real_of_int (fst ob) \<le> t \<longrightarrow>
                   fst ob \<le> fst (last (rows_until df t))))
         \<and> (i < length df \<and> real_of_int (fst (df ! i)) < target
              \<and> (\<exists>k<length df. target \<le> real_of_int (fst (df ! k))) \<longrightarrow>
            (\<exists>j. mf_find_end df i target = Some j \<and> j < length df
                 \<and> target \<le> real_of_int (fst (df ! j))
                 \<and> (\<forall>k<length df. target \<le> real_of_int (fst (df ! k)) \<longrightarrow>
                        fst (df ! j) \<le> fst (df ! k))))"
  using rows_until_last [OF assms, of t] mf_find_end_earliest [OF assms, of i target]
  by blast

theorem date_resolution_witness:
  "sorted (map fst [(0::int, 10::real), (5, 11), (9, 12)])
   \<and> last (rows_until [(0, 10), (5, 11), (9, 12)] 6) = (5, 11)
   \<and> mf_find_end [(0, 10), (5, 11), (9, 12)] 0 6 = Some 2"
proof -
  let ?df = "[(0::int, 10::real), (5, 11), (9, 12)]"
  have s: "sorted (map fst ?df)" by simp
  have a: "\<exists>ob\<in>set ?df. real_of_int (fst ob) \<le> 6" by simp
  have b: "0 < length ?df \<and> real_of_int (fst (?df ! 0)) < 6
           \<and> (\<exists>k<length ?df. 6 \<le> real_of_int (fst (?df ! k)))"
    by (auto intro: exI [of _ 2])
  from date_resolution [OF s, of 6 0 6] a b
  have l: "last (rows_until ?df 6) \<in> set ?df"
    "real_of_int (fst (last (rows_until ?df 6))) \<le> 6"
    "\<forall>ob\<in>set ?df. real_of_int (fst ob) \<le> 6 \<longrightarrow> fst ob \<le> fst (last (rows_until ?df 6))"
    and m: "\<exists>j. mf_find_end ?df 0 6 = Some j \<and> j < length ?df
                 \<and> 6 \<le> real_of_int (fst (?df ! j))
                 \<and> (\<forall>k<length ?df. 6 \<le> real_of_int (fst (?df ! k)) \<longrightarrow>
                        fst (?df ! j) \<le> fst (?df ! k))"
    by blast+
  from l have "last (rows_until ?df 6) = (5, 11)" by auto
  moreover from m obtain j where j: "mf_find_end ?df 0 6 = Some j" "j < 3"
    "6 \<le> real_of_int (fst (?df ! j))" by auto
  then have "j = 2" by (cases j rule: nat.exhaust; auto simp: nth_Cons' split: if_splits)
  ultimately show ?thesis using s j by simp
qed

section \<open>The loop of fetch\_nifty\_data.py\<close>

lemma nifty_calculate_cagr_pos:
  assumes "0 < years_between sd ed" "0 < sp" "0 < ep"
  shows "nifty_calculate_cagr sp ep sd ed
           = Inr (PyFloat (((ep / sp) powr (1 / years_between sd ed) - 1) * 100))"
  using assms
  by (simp add: nifty_calculate_cagr_def years_between_def Let_def py_div_def py_pow_def)

lemma py_pow_not_none: "py_pow x y \<noteq> Inr PyNone"
  by (simp add: py_pow_def)

lemma minus1_times100_none: "minus1_times100 v = PyNone \<longleftrightarrow> v = PyNone"
  by (cases v) simp_all

lemma nifty_emit_cases:
  assumes "nifty_emit ws n sd ed sp ep = Inr (ws', n')"
  shows "(ws' = ws \<and> n' = n \<and> \<not> (0 < years_between sd ed \<and> 0 < sp))
         \<or> (0 < years_between sd ed \<and> 0 < sp \<and> n' = n + 1
             \<and> (\<exists>c. ws' = ws @ [nifty_window n sd ed sp ep c] \<and> c \<noteq> None
                  \<and> (0 < ep \<longrightarrow>
                        c = Some (py_round2 (((ep / sp) powr (1 / years_between sd ed) - 1) * 100)))))"
proof (cases "0 < years_between sd ed \<and> 0 < sp")
  case False
  then show ?thesis using assms by (auto simp: nifty_emit_def Let_def)
next
  case True
  show ?thesis
  proof (cases "0 < ep")
    case True
    with \<open>0 < years_between sd ed \<and> 0 < sp\<close> assms show ?thesis
      by (simp add: nifty_emit_def Let_def nifty_calculate_cagr_pos)
  next
    case False
    from True have "nifty_calculate_cagr sp ep sd ed \<noteq> Inr PyNone"
      using py_pow_not_none
      by (auto simp: nifty_calculate_cagr_def years_between_def Let_def py_div_def
          minus1_times100_none split: sum.splits)
    with False True assms show ?thesis
      by (auto simp: nifty_emit_def Let_def split: sum.splits pyval.splits)
  qed
qed

lemma nifty_step_unfold:
  "nifty_step h e wy sd (cs, ws, n) =
     (if real_of_int (e - cs) < real_of_int wy * 365.25 * 0.98 then Inl (Inr ws)
      else if real_of_int \<lfloor>clamp_end e wy cs - real_of_int cs\<rfloor> < real_of_int wy * 365.25 * 0.98
        then Inl (Inr ws)
      else if rows_until h (real_of_int cs) = [] \<or> rows_until h (clamp_end e wy cs) = []
        then Inr (cs + sd, ws, n)
      else if years_between (fst (last (rows_until h (real_of_int cs))))
                (fst (last (rows_until h (clamp_end e wy cs)))) < real_of_int wy * 0.9
        then Inl (Inr ws)
      else (case nifty_emit ws n (fst (last (rows_until h (real_of_int cs))))
                  (fst (last (rows_until h (clamp_end e wy cs))))
                  (snd (last (rows_until h (real_of_int cs))))
                  (snd (last (rows_until h (clamp_end e wy cs)))) of
              Inl err \<Rightarrow> Inl (Inl err)
            | Inr (ws2, n2) \<Rightarrow>
                if real_of_int e - real_of_int wy * 365.25 * 0.9 \<le> real_of_int (cs + sd)
                then Inl (Inr ws2) else Inr (cs + sd, ws2, n2)))"
  unfolding nifty_step_def clamp_end_def Let_def prod.case by (rule refl)

lemma nifty_step_cases:
  assumes "nifty_step h e wy sd (cs, ws, n) = Inr (cs', ws', n')
           \<or> nifty_step h e wy sd (cs, ws, n) = Inl (Inr ws')"
  shows "ws' = ws
         \<or> (\<exists>a b c. a = last (rows_until h (real_of_int cs)) \<and> a \<in> set h
              \<and> b = last (rows_until h (clamp_end e wy cs))
              \<and> b \<in> set h
              \<and> ws' = ws @ [nifty_window n (fst a) (fst b) (snd a) (snd b) c]
              \<and> 0 < years_between (fst a) (fst b)
              \<and> real_of_int wy * 0.9 \<le> years_between (fst a) (fst b)
              \<and> 0 < snd a \<and> c \<noteq> None
              \<and> (0 < snd b \<longrightarrow>
                    c = Some (py_round2 (((snd b / snd a) powr (1 / years_between (fst a) (fst b)) - 1) * 100))))"
proof -
  let ?a = "last (rows_until h (real_of_int cs))"
  let ?b = "last (rows_until h (clamp_end e wy cs))"
  consider (stop) "real_of_int (e - cs) < real_of_int wy * 365.25 * 0.98
        \<or> real_of_int \<lfloor>clamp_end e wy cs - real_of_int cs\<rfloor> < real_of_int wy * 365.25 * 0.98"
    | (skip) "\<not> (real_of_int (e - cs) < real_of_int wy * 365.25 * 0.98
        \<or> real_of_int \<lfloor>clamp_end e wy cs - real_of_int cs\<rfloor> < real_of_int wy * 365.25 * 0.98)"
        "rows_until h (real_of_int cs) = [] \<or> rows_until h (clamp_end e wy cs) = []"
    | (short) "\<not> (real_of_int (e - cs) < real_of_int wy * 365.25 * 0.98
        \<or> real_of_int \<lfloor>clamp_end e wy cs - real_of_int cs\<rfloor> < real_of_int wy * 365.25 * 0.98)"
        "\<not> (rows_until h (real_of_int cs) = [] \<or> rows_until h (clamp_end e wy cs) = [])"
        "years_between (fst ?a) (fst ?b) < real_of_int wy * 0.9"
    | (emit) "\<not> (real_of_int (e - cs) < real_of_int wy * 365.25 * 0.98
        \<or> real_of_int \<lfloor>clamp_end e wy cs - real_of_int cs\<rfloor> < real_of_int wy * 365.25 * 0.98)"
        "\<not> (rows_until h (real_of_int cs) = [] \<or> rows_until h (clamp_end e wy cs) = [])"
        "\<not> years_between (fst ?a) (fst ?b) < real_of_int wy * 0.9"
    by blast
  then show ?thesis
  proof cases
    case stop
    then show ?thesis using assms unfolding nifty_step_unfold by (auto split: if_splits)
  next
    case skip
    then show ?thesis using assms unfolding nifty_step_unfold by (auto split: if_splits)
  next
    case short
    then show ?thesis using assms unfolding nifty_step_unfold by (auto split: if_splits)
  next
    case emit
    have mem: "?a \<in> set h" "?b \<in> set h"
      using emit(2) last_in_set [of "rows_until h (real_of_int cs)"]
        last_in_set [of "rows_until h (clamp_end e wy cs)"]
      by (auto simp: rows_until_def)
    from emit have eq: "nifty_step h e wy sd (cs, ws, n) =
       (case nifty_emit ws n (fst ?a) (fst ?b) (snd ?a) (snd ?b) of
              Inl err \<Rightarrow> Inl (Inl err)
            | Inr (ws2, n2) \<Rightarrow>
                if real_of_int e - real_of_int wy * 365.25 * 0.9 \<le> real_of_int (cs + sd)
                then Inl (Inr ws2) else Inr (cs + sd, ws2, n2))"
      unfolding nifty_step_unfold by simp
    from assms obtain n2 where
      em: "nifty_emit ws n (fst ?a) (fst ?b) (snd ?a) (snd ?b) = Inr (ws', n2)"
      unfolding eq by (auto split: sum.splits if_splits)
    from nifty_emit_cases [OF em] emit(3) mem show ?thesis
      by auto
  qed
qed

lemma nifty_loop_invariant:
  assumes run: "nifty_loop h e wy sd st = Some (Inr ws)"
    and init: "I st"
    and step: "\<And>s s'. I s \<Longrightarrow> nifty_step h e wy sd s = Inr s' \<Longrightarrow> I s'"
    and final: "\<And>s r. I s \<Longrightarrow> nifty_step h e wy sd s = Inl (Inr r) \<Longrightarrow> R r"
  shows "R ws"
proof -
  define P where "P = (\<lambda>h' e' wy' sd' st' y.
     h' = h \<and> e' = e \<and> wy' = wy \<and> sd' = sd \<longrightarrow> I st' \<longrightarrow> (\<forall>r. y = (Inr r :: py_error + window_row list) \<longrightarrow> R r))"
  have "P h e wy sd st (Inr ws)"
  proof (rule nifty_loop.raw_induct [where P = P, OF _ run])
    fix f h' e' wy' sd' st' y
    assume IH: "\<And>a b c d s y. f a b c d s = Some y \<Longrightarrow> P a b c d s y"
      and eq: "(case nifty_step h' e' wy' sd' st' of Inl r \<Rightarrow> Some r
                | Inr s' \<Rightarrow> f h' e' wy' sd' s') = Some y"
    show "P h' e' wy' sd' st' y"
      unfolding P_def
    proof (intro impI allI)
      fix r
      assume eqs: "h' = h \<and> e' = e \<and> wy' = wy \<and> sd' = sd" and i: "I st'" and y: "y = Inr r"
      show "R r"
      proof (cases "nifty_step h e wy sd st'")
        case (Inl res)
        with eq eqs y have "nifty_step h e wy sd st' = Inl (Inr r)" by simp
        with i show ?thesis by (rule final)
      next
        case (Inr s')
        with eq eqs have "f h e wy sd s' = Some y" by simp
        then have "P h e wy sd s' y" by (rule IH)
        moreover have "I s'" using i Inr by (rule step)
        ultimately show ?thesis using y unfolding P_def by blast
      qed
    qed
  qed
  with init show ?thesis unfolding P_def by blast
qed

lemma nifty_step_advance:
  assumes "nifty_step h e wy sd (cs, ws, n) = Inr (cs', ws', n')"
  shows "cs' = cs + sd \<and> real_of_int wy * 365.25 * 0.98 \<le> real_of_int (e - cs)"
  using assms unfolding nifty_step_unfold
  by (auto split: if_splits sum.splits prod.splits)

lemma nifty_loop_terminates:
  assumes "0 < sd"
  shows "\<exists>r. nifty_loop h e wy sd st = Some r"
proof (induction "nat (\<lfloor>real_of_int (e - fst st) - real_of_int wy * 365.25 * 0.98\<rfloor> + 1)"
       arbitrary: st rule: less_induct)
  case less
  obtain cs ws n where st: "st = (cs, ws, n)" by (cases st) auto
  show ?case
  proof (cases "nifty_step h e wy sd st")
    case (Inl r)
    then show ?thesis by (subst nifty_loop.simps) simp
  next
    case (Inr s')
    obtain cs' ws' n' where s': "s' = (cs', ws', n')" by (cases s') auto
    from Inr st s' have adv: "cs' = cs + sd"
      "real_of_int wy * 365.25 * 0.98 \<le> real_of_int (e - cs)"
      using nifty_step_advance by blast+
    let ?q = "real_of_int (e - cs) - real_of_int wy * 365.25 * 0.98"
    have q0: "0 \<le> \<lfloor>?q\<rfloor>" using adv(2) by simp
    have "real_of_int (e - cs') - real_of_int wy * 365.25 * 0.98 = ?q - real_of_int sd"
      using adv(1) by simp
    then have "\<lfloor>real_of_int (e - cs') - real_of_int wy * 365.25 * 0.98\<rfloor> = \<lfloor>?q\<rfloor> - sd"
      by (simp only: floor_diff_of_int)
    then have "nat (\<lfloor>real_of_int (e - fst s') - real_of_int wy * 365.25 * 0.98\<rfloor> + 1)
         < nat (\<lfloor>real_of_int (e - fst st) - real_of_int wy * 365.25 * 0.98\<rfloor> + 1)"
      using q0 assms st s' by simp
    then obtain r where "nifty_loop h e wy sd s' = Some r" using less by blast
    then show ?thesis using Inr by (subst nifty_loop.simps) simp
  qed
qed

lemma nifty_loop_windows:
  assumes run: "nifty_loop h e wy sd (cs, [], n) = Some (Inr ws)"
  shows "\<forall>w\<in>set ws. real_of_int wy * 0.9 \<le> years_between (w_start_date w) (w_end_date w)
                   \<and> 0 < years_between (w_start_date w) (w_end_date w)"
proof -
  let ?Q = "\<lambda>w. real_of_int wy * 0.9 \<le> years_between (w_start_date w) (w_end_date w)
                   \<and> 0 < years_between (w_start_date w) (w_end_date w)"
  let ?I = "\<lambda>st :: int \<times> window_row list \<times> nat. \<forall>w\<in>set (fst (snd st)). ?Q w"
  have ext: "\<forall>w\<in>set ws'. ?Q w"
    if "\<forall>w\<in>set ws0. ?Q w"
      and "nifty_step h e wy sd (c0, ws0, n0) = Inr (c', ws', n')
           \<or> nifty_step h e wy sd (c0, ws0, n0) = Inl (Inr ws')"
    for c0 ws0 n0 c' ws' n'
    using nifty_step_cases [OF that(2)] that(1)
    by (auto simp: nifty_window_def)
  show ?thesis
  proof (rule nifty_loop_invariant [OF run, where I = ?I])
    show "?I (cs, [], n)" by simp
  next
    fix s s' assume "?I s" "nifty_step h e wy sd s = Inr s'"
    then show "?I s'"
      using ext [of "fst (snd s)" "fst s" "snd (snd s)" "fst s'" "fst (snd s')" "snd (snd s')"]
      by simp
  next
    fix s r assume "?I s" "nifty_step h e wy sd s = Inl (Inr r)"
    then show "\<forall>w\<in>set r. ?Q w"
      using ext [of "fst (snd s)" "fst s" "snd (snd s)" _ r]
      by simp
  qed
qed

lemma nifty_report_cases:
  assumes "nifty_calculate_rolling_cagr h wy sdate sd = Some (Report r)"
  shows "nifty_loop h (Max (set (map fst h))) wy sd (nifty_start_dt h sdate, [], 1)
           = Some (Inr (nr_windows r))
         \<and> nr_windows r \<noteq> [] \<and> valid_cagrs (nr_windows r) \<noteq> []
         \<and> nr_total_windows r = length (nr_windows r)
         \<and> nr_avg_cagr r = py_round2 (mean (valid_cagrs (nr_windows r)))
         \<and> nr_std_cagr r = py_round2 (population_std (valid_cagrs (nr_windows r)))"
proof -
  let ?st = "(nifty_start_dt h sdate, [] :: window_row list, 1 :: nat)"
  from assms have ne: "h \<noteq> []"
    by (auto simp: nifty_calculate_rolling_cagr_def)
  with assms obtain ws where
    l: "nifty_loop h (Max (set (map fst h))) wy sd ?st = Some (Inr ws)"
    and st: "nifty_statistics wy sdate sd ws = Report r"
    by (auto simp: nifty_calculate_rolling_cagr_def Let_def
        split: option.splits sum.splits simp del: One_nat_def set_map)
  from st have "ws \<noteq> []" "valid_cagrs ws \<noteq> []" "nr_windows r = ws"
    "nr_total_windows r = length ws"
    "nr_avg_cagr r = py_round2 (mean (valid_cagrs ws))"
    "nr_std_cagr r = py_round2 (population_std (valid_cagrs ws))"
    by (auto simp: nifty_statistics_def Let_def split: if_splits)
  with l show ?thesis by simp
qed

lemma py_round2_zero: "py_round2 0 = 0"
  by (simp add: py_round2_def Let_def)

lemma nifty_example_step:
  "nifty_step [(0, 10), (1826, 10)] 1826 5 2000 (0, [], 1)
     = Inl (Inr [nifty_window 1 0 1826 10 10 (Some 0)])"
  unfolding nifty_step_unfold
  by (simp add: clamp_end_def rows_until_def years_between_def nifty_emit_def Let_def
      nifty_calculate_cagr_def py_div_def py_pow_def py_round2_zero)

lemma nifty_example_loop:
  "nifty_loop [(0, 10), (1826, 10)] 1826 5 2000 (0, [], 1)
     = Some (Inr [nifty_window 1 0 1826 10 10 (Some 0)])"
  by (subst nifty_loop.simps) (simp add: nifty_example_step del: One_nat_def)

lemma nifty_example_run:
  "nifty_calculate_rolling_cagr [(0, 10), (1826, 10)] 5 None 2000 =
     Some (Report \<lparr>nr_window_years = 5, nr_start_date = None, nr_stride_days = 2000,
       nr_total_windows = 1, nr_avg_cagr = 0, nr_std_cagr = 0,
       nr_windows = [nifty_window 1 0 1826 10 10 (Some 0)],
       nr_analysis_period = (0, 1826)\<rparr>)"
  by (simp add: nifty_calculate_rolling_cagr_def nifty_start_dt_def nifty_example_loop
      nifty_statistics_def valid_cagrs_def List.map_filter_def mean_def population_std_def py_round2_zero
      nifty_window_def Let_def del: One_nat_def)

section \<open>The loop of mf\_st.py\<close>

lemma mf_loop_unfold:
  "mf_loop df wd i cv wds =
     (if i < length df then
        (case mf_find_end df i (real_of_int (fst (df ! i)) + wd) of
           None \<Rightarrow> Inr (cv, wds)
         | Some j \<Rightarrow>
             if 0 < snd (df ! i) \<and> 0 < snd (df ! j) \<and> 0 < years_between (fst (df ! i)) (fst (df ! j))
             then mf_loop df wd (i + mf_stride_days)
                    (cv @ [((snd (df ! j) / snd (df ! i)) powr (1 / years_between (fst (df ! i)) (fst (df ! j))) - 1) * 100])
                    (wds @ [mf_window (length wds + 1) (fst (df ! i)) (fst (df ! j)) (snd (df ! i)) (snd (df ! j))
                       (((snd (df ! j) / snd (df ! i)) powr (1 / years_between (fst (df ! i)) (fst (df ! j))) - 1) * 100)])
             else mf_loop df wd (i + mf_stride_days) cv wds)
      else Inr (cv, wds))"
  by (subst mf_loop.simps) (auto simp: Let_def cagr_expr_pos split: option.splits)

lemma mf_loop_rows:
  assumes "mf_loop df wd i cv wds = Inr (cv', wds')"
  shows "\<forall>w\<in>set wds'. w \<in> set wds \<or>
           (\<exists>k j. k < length df \<and> mf_find_end df k (real_of_int (fst (df ! k)) + wd) = Some j
              \<and> 0 < snd (df ! k) \<and> 0 < snd (df ! j)
              \<and> 0 < years_between (fst (df ! k)) (fst (df ! j))
              \<and> w_start_date w = fst (df ! k) \<and> w_end_date w = fst (df ! j)
              \<and> w_cagr w = Some (py_round2 (((snd (df ! j) / snd (df ! k)) powr
                                (1 / years_between (fst (df ! k)) (fst (df ! j))) - 1) * 100)))"
  using assms
proof (induction "length df - i" arbitrary: i cv wds rule: less_induct)
  case less
  show ?case
  proof (cases "i < length df")
    case False
    then show ?thesis using less.prems by (subst (asm) mf_loop_unfold) simp
  next
    case True
    note lt = True
    have dec: "length df - (i + mf_stride_days) < length df - i"
      using True by (simp add: mf_stride_days_def)
    show ?thesis
    proof (cases "mf_find_end df i (real_of_int (fst (df ! i)) + wd)")
      case None
      then show ?thesis using less.prems lt by (subst (asm) mf_loop_unfold) simp
    next
      case (Some j)
      show ?thesis
      proof (cases "0 < snd (df ! i) \<and> 0 < snd (df ! j) \<and> 0 < years_between (fst (df ! i)) (fst (df ! j))")
        case False
        then have "mf_loop df wd (i + mf_stride_days) cv wds = Inr (cv', wds')"
          using less.prems lt Some by (subst (asm) mf_loop_unfold) (auto split: if_splits)
        from less.hyps [OF dec this] show ?thesis .
      next
        case True
        let ?c = "((snd (df ! j) / snd (df ! i)) powr (1 / years_between (fst (df ! i)) (fst (df ! j))) - 1) * 100"
        let ?w = "mf_window (length wds + 1) (fst (df ! i)) (fst (df ! j)) (snd (df ! i)) (snd (df ! j)) ?c"
        have "mf_loop df wd (i + mf_stride_days) (cv @ [?c]) (wds @ [?w]) = Inr (cv', wds')"
          using less.prems lt Some True by (subst (asm) mf_loop_unfold) (auto split: if_splits)
        from less.hyps [OF dec this] have IH: "\<forall>w\<in>set wds'. w \<in> set (wds @ [?w]) \<or>
           (\<exists>k j. k < length df \<and> mf_find_end df k (real_of_int (fst (df ! k)) + wd) = Some j
              \<and> 0 < snd (df ! k) \<and> 0 < snd (df ! j)
              \<and> 0 < years_between (fst (df ! k)) (fst (df ! j))
              \<and> w_start_date w = fst (df ! k) \<and> w_end_date w = fst (df ! j)
              \<and> w_cagr w = Some (py_round2 (((snd (df ! j) / snd (df ! k)) powr
                                (1 / years_between (fst (df ! k)) (fst (df ! j))) - 1) * 100)))" .
        have w: "w_start_date ?w = fst (df ! i)" "w_end_date ?w = fst (df ! j)"
          "w_cagr ?w = Some (py_round2 ?c)" by (simp_all add: mf_window_def)
        show ?thesis
        proof
          fix w assume "w \<in> set wds'"
          with IH have "w \<in> set wds \<or> w = ?w \<or> (\<exists>k j. k < length df \<and> mf_find_end df k (real_of_int (fst (df ! k)) + wd) = Some j
              \<and> 0 < snd (df ! k) \<and> 0 < snd (df ! j)
              \<and> 0 < years_between (fst (df ! k)) (fst (df ! j))
              \<and> w_start_date w = fst (df ! k) \<and> w_end_date w = fst (df ! j)
              \<and> w_cagr w = Some (py_round2 (((snd (df ! j) / snd (df ! k)) powr
                                (1 / years_between (fst (df ! k)) (fst (df ! j))) - 1) * 100)))" by auto
          moreover have "w = ?w \<Longrightarrow> (\<exists>k j. k < length df \<and> mf_find_end df k (real_of_int (fst (df ! k)) + wd) = Some j
              \<and> 0 < snd (df ! k) \<and> 0 < snd (df ! j)
              \<and> 0 < years_between (fst (df ! k)) (fst (df ! j))
              \<and> w_start_date w = fst (df ! k) \<and> w_end_date w = fst (df ! j)
              \<and> w_cagr w = Some (py_round2 (((snd (df ! j) / snd (df ! k)) powr
                                (1 / years_between (fst (df ! k)) (fst (df ! j))) - 1) * 100)))"
            using lt Some True w by (intro exI [of _ i] exI [of _ j]) simp
          ultimately show "w \<in> set wds \<or> (\<exists>k j. k < length df \<and> mf_find_end df k (real_of_int (fst (df ! k)) + wd) = Some j
              \<and> 0 < snd (df ! k) \<and> 0 < snd (df ! j)
              \<and> 0 < years_between (fst (df ! k)) (fst (df ! j))
              \<and> w_start_date w = fst (df ! k) \<and> w_end_date w = fst (df ! j)
              \<and> w_cagr w = Some (py_round2 (((snd (df ! j) / snd (df ! k)) powr
                                (1 / years_between (fst (df ! k)) (fst (df ! j))) - 1) * 100)))" by blast
        qed
      qed
    qed
  qed
qed

lemma mf_find_end_years:
  assumes "mf_find_end df k (real_of_int (fst (df ! k)) + real_of_int wy * 365.25) = Some j"
  shows "real_of_int wy \<le> years_between (fst (df ! k)) (fst (df ! j))"
proof -
  from assms have "real_of_int (fst (df ! k)) + real_of_int wy * 365.25 \<le> real_of_int (fst (df ! j))"
    unfolding mf_find_end_def find_Some_iff by blast
  then show ?thesis by (simp add: years_between_def field_simps)
qed

lemma mf_result_windows:
  "\<forall>w\<in>set (mf_window_details (mf_calculate_rolling_cagr data wy)).
      real_of_int wy \<le> years_between (w_start_date w) (w_end_date w)
      \<and> 0 < years_between (w_start_date w) (w_end_date w)"
proof (cases "mf_loop (sort_key fst data) (real_of_int wy * 365.25) 0 [] []")
  case (Inl e)
  then show ?thesis by (simp add: mf_calculate_rolling_cagr_def mf_empty_result_def)
next
  case (Inr p)
  obtain cv wds where p: "p = (cv, wds)" by (cases p) auto
  from mf_loop_rows [OF Inr [unfolded p]] mf_find_end_years
  have "\<forall>w\<in>set wds. real_of_int wy \<le> years_between (w_start_date w) (w_end_date w)
      \<and> 0 < years_between (w_start_date w) (w_end_date w)"
    by fastforce
  then show ?thesis using Inr p
    by (simp add: mf_calculate_rolling_cagr_def mf_empty_result_def)
qed

lemma mf_example_run: "mf_calculate_rolling_cagr [(0,10),(1827,10)] 5 =
   \<lparr>mf_average_cagr = 0, mf_std_dev = NaN, mf_num_windows = 1, mf_cagr_values = Some [0],
    mf_window_details = [mf_window 1 0 1827 10 10 0]\<rparr>"
proof -
  have f0: "mf_find_end [(0,10),(1827,10)] 0 (real_of_int 0 + real_of_int 5 * 365.25) = Some 1"
    by (simp add: mf_find_end_def upt_rec)
  have l2: "mf_loop [(0,10),(1827,10)] (real_of_int 5 * 365.25) (0 + mf_stride_days) [0] [mf_window 1 0 1827 10 10 0]
      = Inr ([0], [mf_window 1 0 1827 10 10 0])"
    by (subst mf_loop_unfold) (simp add: mf_stride_days_def)
  have l1: "mf_loop [(0,10),(1827,10)] (real_of_int 5 * 365.25) 0 [] []
      = Inr ([0], [mf_window 1 0 1827 10 10 0])"
    using f0 l2
    by (subst mf_loop_unfold) (simp add: years_between_def)
  show ?thesis
    using l1 by (simp add: mf_calculate_rolling_cagr_def mean_def pandas_std_def py_round2_def)
qed

section \<open>The loop of nse\_index\_st.py\<close>

lemma nse_step_unfold:
  "nse_step df wd sd (i, ws) =
     (if \<not> i < int (length df) then Inl (Inr ws)
      else (case iloc df i of
              Inl e \<Rightarrow> Inl (Inl e)
            | Inr start_row \<Rightarrow>
                if rows_from df (row_date start_row + wd) \<noteq> [] then
                  (case iloc df (int (fst (hd (rows_from df (row_date start_row + wd))))) of
                     Inl e \<Rightarrow> Inl (Inl e)
                   | Inr end_row \<Rightarrow>
                       (case nse_window (length ws + 1) (row_date start_row) (row_date end_row)
                               (row_close start_row) (row_close end_row) of
                          Inl e \<Rightarrow> Inl (Inl e)
                        | Inr w \<Rightarrow> Inr (i + sd, ws @ [w])))
                else Inl (Inr ws)))"
  by (simp add: nse_step_def Let_def split: sum.splits)

lemma nse_step_advance:
  assumes "nse_step df wd sd (i, ws) = Inr (i', ws')"
  shows "i' = i + sd"
  using assms unfolding nse_step_unfold
  by (auto split: if_splits sum.splits)

lemma nse_example_window1: "nse_window n 0 400 10 10 = Inr \<lparr>w_window = n, w_start_date = 0, w_end_date = 400,
   w_start_nav = 10, w_end_nav = 10, w_actual_years = 1.1, w_cagr = Some 0\<rparr>"
  by (simp add: nse_window_def calculate_nse_cagr_def cagr_expr_def py_div_def py_pow_def
      years_between_def py_round2_def Let_def)

lemma nse_example_window2: "nse_window n 10 400 10 10 = Inr \<lparr>w_window = n, w_start_date = 10, w_end_date = 400,
   w_start_nav = 10, w_end_nav = 10, w_actual_years = 1.07, w_cagr = Some 0\<rparr>"
  by (simp add: nse_window_def calculate_nse_cagr_def cagr_expr_def py_div_def py_pow_def
      years_between_def py_round2_def Let_def)

lemma nse_example_step1: "nse_step nse_example_frame 365 1 (0, []) = Inr (1, [nse_example_w1])"
  unfolding nse_step_unfold
  by (simp add: nse_example_frame_def iloc_def rows_from_def row_date_def row_close_def nse_example_window1 Let_def nse_example_w1_def)

lemma nse_example_step2: "nse_step nse_example_frame 365 1 (1, [nse_example_w1]) = Inr (2, [nse_example_w1, nse_example_w2])"
  unfolding nse_step_unfold
  by (simp add: nse_example_frame_def iloc_def rows_from_def row_date_def row_close_def nse_example_window2 Let_def nse_example_w2_def)

lemma nse_example_step3: "nse_step nse_example_frame 365 1 (2, [nse_example_w1, nse_example_w2]) = Inl (Inr [nse_example_w1, nse_example_w2])"
  unfolding nse_step_unfold
  by (simp add: nse_example_frame_def iloc_def rows_from_def row_date_def row_close_def Let_def)

lemma nse_example_loop: "nse_loop nse_example_frame 365 1 (0, []) = Some (Inr [nse_example_w1, nse_example_w2])"
  by (subst nse_loop.simps, simp add: nse_example_step1, subst nse_loop.simps, simp add: nse_example_step2,
      subst nse_loop.simps, simp add: nse_example_step3)

lemma nse_example_run: "calculate_nse_rolling_cagr nse_example_frame 1 None 1 =
   Some (Report \<lparr>ns_window_years = 1, ns_start_date = None, ns_analysis_period = (0, 400),
     ns_total_windows = 2, ns_avg_cagr = 0, ns_std_cagr = 0, ns_min_cagr = 0, ns_max_cagr = 0,
     ns_windows = [nse_example_w1, nse_example_w2]\<rparr>)"
proof -
  have "nse_example_frame \<noteq> []" "length nse_example_frame = 12" by (simp_all add: nse_example_frame_def)
  moreover have "py_int (real_of_int 1 * 365.25) = 365" by (simp add: py_int_def)
  ultimately show ?thesis
    by (simp add: calculate_nse_rolling_cagr_def nse_example_loop nse_statistics_def Let_def valid_cagrs_def
        List.map_filter_def nse_example_w1_def nse_example_w2_def mean_def population_std_def py_round2_zero)
qed

section \<open>How the anchor advances\<close>

lemma nifty_continue_step:
  "nifty_step [(0, 10), (1826, 10), (3000, 10)] 3000 5 30 (0, [], 1)
     = Inr (30, [nifty_window 1 0 1826 10 10 (Some 0)], 2)"
  unfolding nifty_step_unfold
  by (simp add: clamp_end_def rows_until_def years_between_def nifty_emit_def Let_def
      nifty_calculate_cagr_def py_div_def py_pow_def py_round2_zero)

lemma mf_loop_advance:
  assumes "i < length df" "mf_find_end df i (real_of_int (fst (df ! i)) + wd) = Some j"
  shows "mf_loop df wd i cv wds = mf_loop df wd (i + mf_stride_days) cv wds
         \<or> (\<exists>c w. mf_loop df wd i cv wds = mf_loop df wd (i + mf_stride_days) (cv @ [c]) (wds @ [w]))"
proof (cases "0 < snd (df ! i) \<and> 0 < snd (df ! j)
               \<and> 0 < years_between (fst (df ! i)) (fst (df ! j))")
  case True
  with assms have "mf_loop df wd i cv wds = mf_loop df wd (i + mf_stride_days)
      (cv @ [((snd (df ! j) / snd (df ! i)) powr
                (1 / years_between (fst (df ! i)) (fst (df ! j))) - 1) * 100])
      (wds @ [mf_window (length wds + 1) (fst (df ! i)) (fst (df ! j)) (snd (df ! i))
                (snd (df ! j))
                (((snd (df ! j) / snd (df ! i)) powr
                    (1 / years_between (fst (df ! i)) (fst (df ! j))) - 1) * 100)])"
    by (subst mf_loop_unfold) (simp del: One_nat_def)
  then show ?thesis by blast
next
  case False
  with assms have "mf_loop df wd i cv wds = mf_loop df wd (i + mf_stride_days) cv wds"
    by (subst mf_loop_unfold) auto
  then show ?thesis by blast
qed

text \<open>
  C4 as stated: each step advances the anchor date by exactly \<open>stride_days\<close> calendar days
  in every rolling analysis. With a stride of 1, the analysis of nse\_index\_st.py on the
  example frame emits two windows whose start dates are ten days apart.
\<close>

theorem anchor_stride_counterexample:
  "calculate_nse_rolling_cagr nse_example_frame 1 None 1 =
     Some (Report \<lparr>ns_window_years = 1, ns_start_date = None, ns_analysis_period = (0, 400),
       ns_total_windows = 2, ns_avg_cagr = 0, ns_std_cagr = 0, ns_min_cagr = 0,
       ns_max_cagr = 0, ns_windows = [nse_example_w1, nse_example_w2]\<rparr>)
   \<and> w_start_date nse_example_w2 = 10
   \<and> w_start_date nse_example_w2 \<noteq> w_start_date nse_example_w1 + 1"
  by (simp add: nse_example_run) (simp add: nse_example_w1_def nse_example_w2_def)

text \<open>
  C4, amended. In fetch\_nifty\_data.py every pass that stays in the loop moves the anchor
  date on by exactly \<open>stride_days\<close> days, whether or not it appended a window. In
  nse\_index\_st.py and mf\_st.py the anchor is a row index: a pass that stays in the loop
  moves it on by \<open>stride_days\<close> rows (21 rows in mf\_st.py, with or without an appended
  window), not by days.
\<close>

theorem anchor_advance:
  "(nifty_step hist_data end_dt window_years stride_days (current_start, windows, window_num)
      = Inr (current_start', windows', window_num')
      \<longrightarrow> current_start' = current_start + stride_days)
   \<and> (nse_step df window_days stride_days (start_idx, nse_windows) = Inr (start_idx', nse_windows')
      \<longrightarrow> start_idx' = start_idx + stride_days)
   \<and> (i < length mf_df \<and> mf_find_end mf_df i (real_of_int (fst (mf_df ! i)) + mf_window_days) = Some j
      \<longrightarrow> mf_loop mf_df mf_window_days i cagr_values window_details
            = mf_loop mf_df mf_window_days (i + 21) cagr_values window_details
          \<or> (\<exists>c w. mf_loop mf_df mf_window_days i cagr_values window_details
                = mf_loop mf_df mf_window_days (i + 21) (cagr_values @ [c]) (window_details @ [w])))"
  using nifty_step_advance [of hist_data end_dt window_years stride_days current_start windows
      window_num current_start' windows' window_num']
    nse_step_advance [of df window_days stride_days start_idx nse_windows start_idx' nse_windows']
    mf_loop_advance [of i mf_df mf_window_days j cagr_values window_details]
  by (simp add: mf_stride_days_def)

theorem anchor_advance_witness:
  "nifty_step [(0, 10), (1826, 10), (3000, 10)] 3000 5 30 (0, [], 1)
     = Inr (30, [nifty_window 1 0 1826 10 10 (Some 0)], 2)
   \<and> (30::int) = 0 + 30
   \<and> nse_step nse_example_frame 365 1 (0, []) = Inr (1, [nse_example_w1])
   \<and> (1::int) = 0 + 1
   \<and> mf_find_end [(0, 10), (1827, 10)] 0 (real_of_int (fst ([(0, 10), (1827, 10)] ! 0)) + 1826.25)
       = Some 1
   \<and> (mf_loop [(0, 10), (1827, 10)] 1826.25 0 [] [] = mf_loop [(0, 10), (1827, 10)] 1826.25 (0 + 21) [] []
       \<or> (\<exists>c w. mf_loop [(0, 10), (1827, 10)] 1826.25 0 [] []
                 = mf_loop [(0, 10), (1827, 10)] 1826.25 (0 + 21) ([] @ [c]) ([] @ [w])))"
proof -
  have f: "mf_find_end [(0, 10), (1827, 10)] 0
             (real_of_int (fst ([(0, 10), (1827, 10)] ! 0)) + 1826.25) = Some 1"
    by (simp add: mf_find_end_def upt_rec)
  from anchor_advance [of "[(0, 10), (1826, 10), (3000, 10)]" 3000 5 30 0 "[]" 1
      30 "[nifty_window 1 0 1826 10 10 (Some 0)]" 2
      nse_example_frame 365 0 "[]" 1 "[nse_example_w1]"
      0 "[(0, 10), (1827, 10)]" "1826.25" 1 "[]" "[]"]
    f nifty_continue_step nse_example_step1
  show ?thesis by (simp del: One_nat_def)
qed

section \<open>What the rolling analyses return\<close>

lemma nifty_returns:
  assumes "0 < sd"
  shows "\<exists>res. nifty_calculate_rolling_cagr h wy sdate sd = Some res"
proof -
  obtain r where "nifty_loop h (Max (set (map fst h))) wy sd (nifty_start_dt h sdate, [], 1) = Some r"
    using nifty_loop_terminates [OF assms] by blast
  then show ?thesis
    by (cases r) (simp_all add: nifty_calculate_rolling_cagr_def Let_def del: One_nat_def set_map)
qed

lemma nifty_short_series:
  assumes "h \<noteq> []"
    and "real_of_int (Max (set (map fst h)) - nifty_start_dt h sdate)
           < 0.98 * (real_of_int wy * 365.25)"
  shows "nifty_calculate_rolling_cagr h wy sdate sd = Some (Failure NoRollingWindows)"
proof -
  have "nifty_step h (Max (set (map fst h))) wy sd (nifty_start_dt h sdate, [], 1) = Inl (Inr [])"
    using assms(2) unfolding nifty_step_unfold by (simp add: mult.commute)
  then have "nifty_loop h (Max (set (map fst h))) wy sd (nifty_start_dt h sdate, [], 1) = Some (Inr [])"
    by (subst nifty_loop.simps) simp
  then show ?thesis using assms(1)
    by (simp add: nifty_calculate_rolling_cagr_def Let_def nifty_statistics_def del: One_nat_def set_map)
qed

lemma mf_short_series:
  assumes "data = [] \<or> real_of_int (Max (set (map fst data)) - Min (set (map fst data)))
                          < real_of_int wy * 365.25"
  shows "mf_calculate_rolling_cagr data wy = mf_empty_result"
proof -
  let ?df = "sort_key fst data"
  have "mf_loop ?df (real_of_int wy * 365.25) 0 [] [] = Inr ([], [])"
  proof (cases "data = []")
    case True
    then show ?thesis by (subst mf_loop_unfold) simp
  next
    case False
    with assms have span: "real_of_int (Max (set (map fst data)) - Min (set (map fst data)))
                          < real_of_int wy * 365.25" by simp
    have len: "0 < length ?df" using False by simp
    have bound: "Min (set (map fst data)) \<le> fst r \<and> fst r \<le> Max (set (map fst data))"
      if "r \<in> set ?df" for r
      using that by (auto intro: Min_le Max_ge)
    have "?df ! 0 \<in> set ?df" using len by (intro nth_mem)
    then have lo: "Min (set (map fst data)) \<le> fst (?df ! 0)" using bound by blast
    have "\<not> real_of_int (fst (?df ! 0)) + real_of_int wy * 365.25 \<le> real_of_int (fst (?df ! j))"
      if "j \<in> set [0 + 1..<length ?df]" for j
    proof -
      from that have "?df ! j \<in> set ?df" by (intro nth_mem) simp
      then have "fst (?df ! j) \<le> Max (set (map fst data))" using bound by blast
      with lo have "real_of_int (fst (?df ! j)) - real_of_int (fst (?df ! 0))
          \<le> real_of_int (Max (set (map fst data)) - Min (set (map fst data)))"
        by simp
      with span show ?thesis by linarith
    qed
    then have "mf_find_end ?df 0 (real_of_int (fst (?df ! 0)) + real_of_int wy * 365.25) = None"
      unfolding mf_find_end_def find_None_iff by blast
    then show ?thesis using len by (subst mf_loop_unfold) simp
  qed
  then show ?thesis by (simp add: mf_calculate_rolling_cagr_def)
qed

lemma mf_num_windows_zero:
  "mf_num_windows (mf_calculate_rolling_cagr data wy) = 0
     \<longleftrightarrow> mf_calculate_rolling_cagr data wy = mf_empty_result"
  by (auto simp: mf_calculate_rolling_cagr_def mf_empty_result_def Let_def
      split: sum.splits prod.splits)

lemma nifty_short_step1:
  "nifty_step [(0, 10), (1800, 10)] 1800 5 30 (0, [], 1)
     = Inr (30, [nifty_window 1 0 1800 10 10 (Some 0)], 2)"
  unfolding nifty_step_unfold
  by (simp add: clamp_end_def rows_until_def years_between_def nifty_emit_def Let_def
      nifty_calculate_cagr_def py_div_def py_pow_def py_round2_zero)

lemma nifty_short_step2:
  "nifty_step [(0, 10), (1800, 10)] 1800 5 30 (30, ws, 2) = Inl (Inr ws)"
  unfolding nifty_step_unfold by simp

lemma nifty_short_run:
  "nifty_calculate_rolling_cagr [(0, 10), (1800, 10)] 5 None 30 =
     Some (Report \<lparr>nr_window_years = 5, nr_start_date = None, nr_stride_days = 30,
       nr_total_windows = 1, nr_avg_cagr = 0, nr_std_cagr = 0,
       nr_windows = [nifty_window 1 0 1800 10 10 (Some 0)],
       nr_analysis_period = (0, 1800)\<rparr>)"
proof -
  have "nifty_loop [(0, 10), (1800, 10)] 1800 5 30 (0, [], 1)
          = Some (Inr [nifty_window 1 0 1800 10 10 (Some 0)])"
    by (subst nifty_loop.simps, simp add: nifty_short_step1 del: One_nat_def,
        subst nifty_loop.simps, simp add: nifty_short_step2)
  then show ?thesis
    by (simp add: nifty_calculate_rolling_cagr_def nifty_start_dt_def nifty_statistics_def
      valid_cagrs_def List.map_filter_def mean_def population_std_def py_round2_zero
      nifty_window_def Let_def del: One_nat_def)
qed

text \<open>
  C7 as stated: a series spanning fewer days than \<open>window_years\<close> years yields the failure
  for no windows. A series of 1800 days is shorter than five years (1826.25 days), and the
  analysis of fetch\_nifty\_data.py returns a report with one window for it.
\<close>

theorem short_series_counterexample:
  "real_of_int (1800 - 0) < real_of_int 5 * 365.25
   \<and> nifty_calculate_rolling_cagr [(0, 10), (1800, 10)] 5 None 30 =
       Some (Report \<lparr>nr_window_years = 5, nr_start_date = None, nr_stride_days = 30,
         nr_total_windows = 1, nr_avg_cagr = 0, nr_std_cagr = 0,
         nr_windows = [nifty_window 1 0 1800 10 10 (Some 0)],
         nr_analysis_period = (0, 1800)\<rparr>)"
  by (simp add: nifty_short_run)

text \<open>
  C7, amended. With a positive stride the analysis of fetch\_nifty\_data.py returns a
  dictionary, a report or an error, and raises nothing; when the days from the first anchor
  to the latest date are fewer than 98 percent of \<open>window_years * 365.25\<close>, it returns the
  error for no rolling windows. The analysis of mf\_st.py has no tagged failure: for an empty
  series, or one spanning fewer days than \<open>window_years * 365.25\<close>, it returns the dictionary
  of zeros, which is the only result with \<open>num_windows = 0\<close>.
\<close>

theorem rolling_analysis_results:
  "(0 < stride_days \<longrightarrow>
      (\<exists>res. nifty_calculate_rolling_cagr hist_data window_years start_date stride_days
               = Some res))
   \<and> (hist_data \<noteq> []
       \<and> real_of_int (Max (set (map fst hist_data)) - nifty_start_dt hist_data start_date)
           < 0.98 * (real_of_int window_years * 365.25) \<longrightarrow>
      nifty_calculate_rolling_cagr hist_data window_years start_date stride_days
        = Some (Failure NoRollingWindows))
   \<and> (data = [] \<or> real_of_int (Max (set (map fst data)) - Min (set (map fst data)))
                     < real_of_int window_years * 365.25 \<longrightarrow>
      mf_calculate_rolling_cagr data window_years = mf_empty_result)
   \<and> (mf_num_windows (mf_calculate_rolling_cagr data window_years) = 0
        \<longleftrightarrow> mf_calculate_rolling_cagr data window_years = mf_empty_result)"
  using nifty_returns [of stride_days hist_data window_years start_date]
    nifty_short_series [of hist_data start_date window_years stride_days]
    mf_short_series [of data window_years]
    mf_num_windows_zero [of data window_years]
  by blast

theorem rolling_analysis_results_witness:
  "nifty_calculate_rolling_cagr [(0, 10), (1000, 10)] 5 None 30
     = Some (Failure NoRollingWindows)
   \<and> mf_calculate_rolling_cagr [(0, 10), (1000, 10)] 5 = mf_empty_result
   \<and> mf_num_windows (mf_calculate_rolling_cagr [(0, 10), (1000, 10)] 5) = 0"
  using rolling_analysis_results [of 30 "[(0, 10), (1000, 10)]" 5 None "[(0, 10), (1000, 10)]"]
  by (auto simp: nifty_start_dt_def)

section \<open>The sign of the growth rate\<close>







lemma fourth_root_16: "(16::real) powr (1 / 4) = 2"
proof -
  have "(16::real) = 2 powr 4" by simp
  then have "(16::real) powr (1 / 4) = (2 powr 4) powr (1 / 4)" by simp
  also have "\<dots> = 2" by (simp only: powr_powr) simp
  finally show ?thesis .
qed


lemma years_1461: "years_between 0 1461 = 4"
  by (simp add: years_between_def)

lemma nifty_four_year_run:
  assumes c: "py_round2 (((e / s) powr (1 / 4) - 1) * 100) = c" and pos: "0 < s" "0 < e"
  shows "nifty_calculate_rolling_cagr [(0, s), (1461, e)] 4 None 2000 =
     Some (Report \<lparr>nr_window_years = 4, nr_start_date = None, nr_stride_days = 2000,
       nr_total_windows = 1, nr_avg_cagr = py_round2 c, nr_std_cagr = 0,
       nr_windows = [nifty_window 1 0 1461 s e (Some c)],
       nr_analysis_period = (0, 1461)\<rparr>)"
proof -
  have em: "nifty_emit [] 1 0 1461 s e = Inr ([nifty_window 1 0 1461 s e (Some c)], 2)"
    using c pos by (simp add: nifty_emit_def Let_def nifty_calculate_cagr_pos years_1461)
  have "nifty_step [(0, s), (1461, e)] 1461 4 2000 (0, [], 1)
            = Inl (Inr [nifty_window 1 0 1461 s e (Some c)])"
    unfolding nifty_step_unfold
    by (simp add: clamp_end_def rows_until_def years_1461 em del: One_nat_def)
  then have "nifty_loop [(0, s), (1461, e)] 1461 4 2000 (0, [], 1)
          = Some (Inr [nifty_window 1 0 1461 s e (Some c)])"
    by (subst nifty_loop.simps) simp
  then show ?thesis
    by (simp add: nifty_calculate_rolling_cagr_def nifty_start_dt_def nifty_statistics_def
      valid_cagrs_def List.map_filter_def mean_def population_std_def py_round2_zero
      nifty_window_def Let_def del: One_nat_def)
qed


lemma py_round2_100: "py_round2 100 = 100" by (simp add: py_round2_def Let_def)

lemma nifty_rising_run:
  "nifty_calculate_rolling_cagr [(0, 1), (1461, 16)] 4 None 2000 =
     Some (Report \<lparr>nr_window_years = 4, nr_start_date = None, nr_stride_days = 2000,
       nr_total_windows = 1, nr_avg_cagr = 100, nr_std_cagr = 0,
       nr_windows = [nifty_window 1 0 1461 1 16 (Some 100)],
       nr_analysis_period = (0, 1461)\<rparr>)"
proof -
  have "py_round2 (((16 / 1) powr (1 / 4) - 1) * 100) = 100"
    by (simp add: fourth_root_16 py_round2_100)
  from nifty_four_year_run [OF this] show ?thesis by (simp add: py_round2_100)
qed






section \<open>Invariants of the loop of nse\_index\_st.py\<close>









lemma nse_report_cases:
  assumes "calculate_nse_rolling_cagr df0 wy sdate sd = Some (Report r)"
  shows "nse_loop (nse_frame df0 sdate) (py_int (real_of_int wy * 365.25)) sd (0, [])
           = Some (Inr (ns_windows r))
         \<and> ns_windows r \<noteq> [] \<and> valid_cagrs (ns_windows r) \<noteq> []
         \<and> ns_total_windows r = length (ns_windows r)
         \<and> ns_avg_cagr r = py_round2 (mean (valid_cagrs (ns_windows r)))
         \<and> ns_std_cagr r = py_round2 (population_std (valid_cagrs (ns_windows r)))
         \<and> ns_min_cagr r = py_round2 (Min (set (valid_cagrs (ns_windows r))))
         \<and> ns_max_cagr r = py_round2 (Max (set (valid_cagrs (ns_windows r))))"
proof -
  let ?df = "nse_frame df0 sdate"
  let ?wd = "py_int (real_of_int wy * 365.25)"
  from assms have run: "(case nse_loop ?df ?wd sd (0, []) of
                     None \<Rightarrow> None
                   | Some (Inl e) \<Rightarrow> Some (Failure (Raised e))
                   | Some (Inr windows) \<Rightarrow> Some (nse_statistics wy sdate windows))
            = Some (Report r)"
    by (cases sdate)
      (auto simp: calculate_nse_rolling_cagr_def nse_frame_def Let_def split: if_splits)
  then obtain ws where l: "nse_loop ?df ?wd sd (0, []) = Some (Inr ws)"
    and st: "nse_statistics wy sdate ws = Report r"
    by (auto split: option.splits sum.splits)
  from st have "ws \<noteq> []" "valid_cagrs ws \<noteq> []" "ns_windows r = ws"
    "ns_total_windows r = length ws"
    "ns_avg_cagr r = py_round2 (mean (valid_cagrs ws))"
    "ns_std_cagr r = py_round2 (population_std (valid_cagrs ws))"
    "ns_min_cagr r = py_round2 (Min (set (valid_cagrs ws)))"
    "ns_max_cagr r = py_round2 (Max (set (valid_cagrs ws)))"
    by (auto simp: nse_statistics_def Let_def split: if_splits)
  with l show ?thesis by simp
qed

lemma nse_year_window_eq:
  "nse_window n 0 365 10 10 = Inr (nse_year_window\<lparr>w_window := n\<rparr>)"
  by (simp add: nse_window_def calculate_nse_cagr_def cagr_expr_def py_div_def py_pow_def
      years_between_def py_round2_def Let_def nse_year_window_def)

lemma nse_year_run:
  "calculate_nse_rolling_cagr nse_year_frame 1 None 21 =
     Some (Report \<lparr>ns_window_years = 1, ns_start_date = None, ns_analysis_period = (0, 365),
       ns_total_windows = 1, ns_avg_cagr = 0, ns_std_cagr = 0, ns_min_cagr = 0,
       ns_max_cagr = 0, ns_windows = [nse_year_window]\<rparr>)"
proof -
  have s1: "nse_step nse_year_frame 365 21 (0, []) = Inr (21, [nse_year_window])"
    unfolding nse_step_unfold
    by (simp add: nse_year_frame_def iloc_def rows_from_def row_date_def row_close_def
        nse_year_window_eq Let_def) (simp add: nse_year_window_def)
  have s2: "nse_step nse_year_frame 365 21 (21, [nse_year_window]) = Inl (Inr [nse_year_window])"
    unfolding nse_step_unfold by (simp add: nse_year_frame_def)
  have l: "nse_loop nse_year_frame 365 21 (0, []) = Some (Inr [nse_year_window])"
    by (subst nse_loop.simps, simp add: s1, subst nse_loop.simps, simp add: s2)
  have "nse_year_frame \<noteq> []" "length nse_year_frame = 12" by (simp_all add: nse_year_frame_def)
  moreover have "py_int (real_of_int 1 * 365.25) = 365" by (simp add: py_int_def)
  ultimately show ?thesis
    by (simp add: calculate_nse_rolling_cagr_def l nse_statistics_def Let_def valid_cagrs_def
        List.map_filter_def nse_year_window_def mean_def population_std_def py_round2_zero)
qed

section \<open>Where a window ends\<close>





section \<open>The reported standard deviation\<close>

lemma mf_example_sorted: "sort_key fst mf_example_data = mf_example_data"
  by (rule sort_key_id_if_sorted) (simp add: mf_example_data_def)

lemma years_21_1482: "years_between 21 1482 = 4"
  by (simp add: years_between_def)

lemma mf_example_find0:
  "mf_find_end mf_example_data 0 1461 = Some 22"
  by (simp add: mf_find_end_def mf_example_data_def upt_rec)

lemma mf_example_find21:
  "mf_find_end mf_example_data 21 1482 = Some 23"
  by (simp add: mf_find_end_def mf_example_data_def upt_rec)

lemma mf_example_loop:
  "mf_loop mf_example_data 1461 0 [] [] =
     Inr ([0, 100], [mf_window 1 0 1461 1 1 0, mf_window 2 21 1482 1 16 100])"
proof -
  have len: "length mf_example_data = 24" by (simp add: mf_example_data_def)
  have r0: "mf_example_data ! 0 = (0, 1)" "mf_example_data ! 21 = (21, 1)"
    "mf_example_data ! 22 = (1461, 1)" "mf_example_data ! 23 = (1482, 16)"
    by (simp_all add: mf_example_data_def)
  have l3: "mf_loop mf_example_data 1461 42 cv wds = Inr (cv, wds)" for cv wds
    by (subst mf_loop_unfold) (simp add: len)
  have l2: "mf_loop mf_example_data 1461 21 [0] [mf_window 1 0 1461 1 1 0]
      = Inr ([0, 100], [mf_window 1 0 1461 1 1 0, mf_window 2 21 1482 1 16 100])"
    by (subst mf_loop_unfold)
      (simp add: len r0 mf_example_find21 years_21_1482 fourth_root_16 mf_stride_days_def l3
        del: One_nat_def)
  show ?thesis
    by (subst mf_loop_unfold)
      (simp add: len r0 mf_example_find0 years_1461 mf_stride_days_def l2 del: One_nat_def)
qed

lemma sqrt_5000_rounded: "py_round2 (sqrt 5000) = 7071 / 100"
proof -
  have lo: "7071 \<le> sqrt 5000 * 100"
  proof -
    have "(7071 / 100 :: real)\<^sup>2 \<le> 5000" by (simp add: power2_eq_square)
    then have "7071 / 100 \<le> sqrt 5000" by (rule real_le_rsqrt)
    then show ?thesis by simp
  qed
  have hi: "sqrt 5000 * 100 < 7071 + 1 / 2"
  proof -
    have "(5000 :: real) < (70715 / 1000)\<^sup>2" by (simp add: power2_eq_square)
    then have "sqrt 5000 < 70715 / 1000" by (intro real_less_lsqrt) simp_all
    then show ?thesis by simp
  qed
  from lo hi have fl: "\<lfloor>sqrt 5000 * 100\<rfloor> = 7071" by linarith
  with hi show ?thesis by (simp add: py_round2_def Let_def)
qed

lemma py_round2_50: "py_round2 50 = 50" by (simp add: py_round2_def Let_def)

lemma mf_example_data_run:
  "mf_calculate_rolling_cagr mf_example_data 4 =
     \<lparr>mf_average_cagr = 50, mf_std_dev = Num (7071 / 100), mf_num_windows = 2,
      mf_cagr_values = Some [0, 100],
      mf_window_details = [mf_window 1 0 1461 1 1 0, mf_window 2 21 1482 1 16 100]\<rparr>"
proof -
  have "(0 - 50 :: real)\<^sup>2 + (100 - 50)\<^sup>2 = 5000" by simp
  then have "pandas_std [0, 100] = Num (sqrt 5000)"
    by (simp add: pandas_std_def mean_def)
  then show ?thesis
    by (simp add: mf_calculate_rolling_cagr_def mf_example_sorted mf_example_loop mean_def
        sqrt_5000_rounded py_round2_50)
qed

lemma population_std_0_100: "population_std [0, 100] = 50"
proof -
  have "sqrt ((50::real)\<^sup>2) = 50" by (simp only: real_sqrt_abs)
  moreover have "((0 - 50 :: real)\<^sup>2 + (100 - 50)\<^sup>2) / 2 = 50\<^sup>2" by simp
  ultimately show ?thesis by (simp add: population_std_def mean_def)
qed

lemma mf_result_std:
  assumes "mf_cagr_values (mf_calculate_rolling_cagr data wy) = Some cv"
  shows "mf_std_dev (mf_calculate_rolling_cagr data wy) = round2_pyfloat (pandas_std cv)
         \<and> mf_average_cagr (mf_calculate_rolling_cagr data wy) = py_round2 (mean cv)
         \<and> mf_num_windows (mf_calculate_rolling_cagr data wy) = length cv \<and> cv \<noteq> []"
  using assms
  by (auto simp: mf_calculate_rolling_cagr_def mf_empty_result_def Let_def
      split: sum.splits prod.splits if_splits)

text \<open>
  C5 as stated: the reported standard deviation is the population one in every rolling
  report. For the example NAV history, mf\_st.py computes the growth rates 0 and 100 and
  reports 70.71, the sample standard deviation; the population one is 50.
\<close>

theorem standard_deviation_counterexample:
  "mf_calculate_rolling_cagr mf_example_data 4 =
     \<lparr>mf_average_cagr = 50, mf_std_dev = Num (7071 / 100), mf_num_windows = 2,
      mf_cagr_values = Some [0, 100],
      mf_window_details = [mf_window 1 0 1461 1 1 0, mf_window 2 21 1482 1 16 100]\<rparr>
   \<and> population_std [0, 100] = 50
   \<and> Num (7071 / 100) \<noteq> Num (population_std [0, 100])"
  by (simp add: mf_example_data_run population_std_0_100)

text \<open>
  C5, amended. In fetch\_nifty\_data.py and nse\_index\_st.py the reported \<open>std_cagr\<close> is
  the population standard deviation (squared deviations from the mean, divided by their
  number, then the square root) of the present \<open>cagr\<close> values of the windows, rounded to
  two decimals. In mf\_st.py the reported \<open>std_dev\<close> is the sample standard deviation of
  the growth rates (divided by their number less one; NaN for a single value), rounded to
  two decimals.
\<close>

theorem reported_standard_deviation:
  "(nifty_calculate_rolling_cagr hist_data window_years start_date stride_days = Some (Report r)
      \<longrightarrow> (let cs = valid_cagrs (nr_windows r); n = real (length cs); m = sum_list cs / n
           in nr_std_cagr r = py_round2 (sqrt (sum_list (map (\<lambda>x. (x - m)\<^sup>2) cs) / n))))
   \<and> (calculate_nse_rolling_cagr fetched window_years start_date stride_days = Some (Report nr)
      \<longrightarrow> (let cs = valid_cagrs (ns_windows nr); n = real (length cs); m = sum_list cs / n
           in ns_std_cagr nr = py_round2 (sqrt (sum_list (map (\<lambda>x. (x - m)\<^sup>2) cs) / n))))
   \<and> (mf_cagr_values (mf_calculate_rolling_cagr data window_years) = Some cv
      \<longrightarrow> (let n = real (length cv); m = sum_list cv / n
           in mf_std_dev (mf_calculate_rolling_cagr data window_years) =
                (if length cv \<le> 1 then NaN
                 else Num (py_round2 (sqrt (sum_list (map (\<lambda>x. (x - m)\<^sup>2) cv)
                                              / real (length cv - 1)))))))"
proof (intro conjI impI)
  assume "nifty_calculate_rolling_cagr hist_data window_years start_date stride_days
            = Some (Report r)"
  from nifty_report_cases [OF this]
  show "let cs = valid_cagrs (nr_windows r); n = real (length cs); m = sum_list cs / n
        in nr_std_cagr r = py_round2 (sqrt (sum_list (map (\<lambda>x. (x - m)\<^sup>2) cs) / n))"
    by (simp add: population_std_def mean_def Let_def)
next
  assume "calculate_nse_rolling_cagr fetched window_years start_date stride_days
            = Some (Report nr)"
  from nse_report_cases [OF this]
  show "let cs = valid_cagrs (ns_windows nr); n = real (length cs); m = sum_list cs / n
        in ns_std_cagr nr = py_round2 (sqrt (sum_list (map (\<lambda>x. (x - m)\<^sup>2) cs) / n))"
    by (simp add: population_std_def mean_def Let_def)
next
  assume "mf_cagr_values (mf_calculate_rolling_cagr data window_years) = Some cv"
  from mf_result_std [OF this]
  show "let n = real (length cv); m = sum_list cv / n
        in mf_std_dev (mf_calculate_rolling_cagr data window_years) =
             (if length cv \<le> 1 then NaN
              else Num (py_round2 (sqrt (sum_list (map (\<lambda>x. (x - m)\<^sup>2) cv)
                                           / real (length cv - 1)))))"
    by (simp add: pandas_std_def mean_def Let_def)
qed

theorem reported_standard_deviation_witness:
  "mf_cagr_values (mf_calculate_rolling_cagr mf_example_data 4) = Some [0, 100]
   \<and> mf_std_dev (mf_calculate_rolling_cagr mf_example_data 4)
       = Num (py_round2 (sqrt (((0 - 50)\<^sup>2 + (100 - 50)\<^sup>2) / 1)))
   \<and> nifty_calculate_rolling_cagr [(0, 1), (1461, 16)] 4 None 2000 =
       Some (Report \<lparr>nr_window_years = 4, nr_start_date = None, nr_stride_days = 2000,
         nr_total_windows = 1, nr_avg_cagr = 100, nr_std_cagr = 0,
         nr_windows = [nifty_window 1 0 1461 1 16 (Some 100)],
         nr_analysis_period = (0, 1461)\<rparr>)
   \<and> (0::real) = py_round2 (sqrt ((100 - 100)\<^sup>2 / 1))
   \<and> calculate_nse_rolling_cagr nse_year_frame 1 None 21 =
       Some (Report \<lparr>ns_window_years = 1, ns_start_date = None, ns_analysis_period = (0, 365),
         ns_total_windows = 1, ns_avg_cagr = 0, ns_std_cagr = 0, ns_min_cagr = 0,
         ns_max_cagr = 0, ns_windows = [nse_year_window]\<rparr>)
   \<and> (0::real) = py_round2 (sqrt ((0 - 0)\<^sup>2 / 1))"
proof -
  have cv: "mf_cagr_values (mf_calculate_rolling_cagr mf_example_data 4) = Some [0, 100]"
    by (simp add: mf_example_data_run)
  have a: "mf_std_dev (mf_calculate_rolling_cagr mf_example_data 4)
       = Num (py_round2 (sqrt (((0 - 50)\<^sup>2 + (100 - 50)\<^sup>2) / 1)))"
    using reported_standard_deviation [where data = mf_example_data and window_years = 4
        and cv = "[0, 100]", THEN conjunct2, THEN conjunct2, THEN mp, OF cv]
    by (simp add: Let_def)
  have b: "(0::real) = py_round2 (sqrt ((100 - 100)\<^sup>2 / 1))"
    using reported_standard_deviation [where hist_data = "[(0, 1), (1461, 16)]"
        and window_years = 4 and start_date = None and stride_days = 2000,
        THEN conjunct1, THEN mp, OF nifty_rising_run]
    by (simp add: Let_def valid_cagrs_def List.map_filter_def nifty_window_def)
  have c: "(0::real) = py_round2 (sqrt ((0 - 0)\<^sup>2 / 1))"
    using reported_standard_deviation [where fetched = nse_year_frame
        and window_years = 1 and start_date = None and stride_days = 21,
        THEN conjunct2, THEN conjunct1, THEN mp, OF nse_year_run]
    by (simp add: Let_def valid_cagrs_def List.map_filter_def nse_year_window_def)
  from cv a b c nifty_rising_run nse_year_run show ?thesis by blast
qed

section \<open>Which windows are emitted and counted\<close>










section \<open>Elapsed years of the emitted windows\<close>

text \<open>
  C3. Every window in a report of fetch\_nifty\_data.py, and every window in the details of
  mf\_st.py, spans at least 0.9 times the requested years and more than zero years, the
  span being the days between its two dates over 365.25: a candidate below 90 percent never
  appears among the windows.
\<close>

theorem emitted_windows_elapsed_years:
  "(nifty_calculate_rolling_cagr hist_data window_years start_date stride_days = Some (Report r)
      \<longrightarrow> (\<forall>w\<in>set (nr_windows r).
             0.9 * real_of_int window_years \<le> years_between (w_start_date w) (w_end_date w)
             \<and> 0 < years_between (w_start_date w) (w_end_date w)))
   \<and> (\<forall>w\<in>set (mf_window_details (mf_calculate_rolling_cagr data window_years)).
         0.9 * real_of_int window_years \<le> years_between (w_start_date w) (w_end_date w)
         \<and> 0 < years_between (w_start_date w) (w_end_date w))"
proof (intro conjI impI)
  assume "nifty_calculate_rolling_cagr hist_data window_years start_date stride_days
            = Some (Report r)"
  from nifty_report_cases [OF this] nifty_loop_windows
  show "\<forall>w\<in>set (nr_windows r).
          0.9 * real_of_int window_years \<le> years_between (w_start_date w) (w_end_date w)
          \<and> 0 < years_between (w_start_date w) (w_end_date w)"
    by (simp add: mult.commute) blast
next
  have "0.9 * real_of_int window_years \<le> y" if "real_of_int window_years \<le> y" "0 < y" for y
    using that by (cases "0 \<le> window_years") (simp_all add: mult_le_0_iff)
  with mf_result_windows [of data window_years]
  show "\<forall>w\<in>set (mf_window_details (mf_calculate_rolling_cagr data window_years)).
          0.9 * real_of_int window_years \<le> years_between (w_start_date w) (w_end_date w)
          \<and> 0 < years_between (w_start_date w) (w_end_date w)"
    by blast
qed

theorem emitted_windows_elapsed_years_witness:
  "0.9 * real_of_int 5 \<le> years_between 0 1826 \<and> 0 < years_between 0 1826
   \<and> 0.9 * real_of_int 5 \<le> years_between 0 1827 \<and> 0 < years_between 0 1827"
proof -
  let ?r = "\<lparr>nr_window_years = 5, nr_start_date = None, nr_stride_days = 2000,
       nr_total_windows = 1, nr_avg_cagr = 0, nr_std_cagr = 0,
       nr_windows = [nifty_window 1 0 1826 10 10 (Some 0)],
       nr_analysis_period = (0, 1826)\<rparr>"
  from emitted_windows_elapsed_years [of "[(0, 10), (1826, 10)]" 5 None 2000 ?r
      "[(0, 10), (1827, 10)]"]
  show ?thesis
    by (simp add: nifty_example_run mf_example_run nifty_window_def mf_window_def)
qed

end
